theory Spec2Isabelle
  imports Main "HOL-Library.Sublist"
begin

section \<open>Strings and messages\<close>

text \<open>
  JavaScript strings are modelled as \<^typ>\<open>string\<close>, the list of the bytes of their
  UTF-8 encoding; the pictographs that start the action's messages are written as their
  UTF-8 bytes.  Every error the
  action handles is an \<open>Error\<close> object, modelled by its \<open>message\<close>; interpolating one
  into a template literal (\<open>${error}\<close>) renders it as \<open>Error: message\<close>.
\<close>

definition cross_mark :: string where
  "cross_mark = [CHR 0xE2, CHR 0x9D, CHR 0x8C]"

definition check_mark :: string where
  "check_mark = [CHR 0xE2, CHR 0x9C, CHR 0x85]"

definition warning_sign :: string where
  "warning_sign = [CHR 0xE2, CHR 0x9A, CHR 0xA0, CHR 0xEF, CHR 0xB8, CHR 0x8F]"

definition package_sign :: string where
  "package_sign = [CHR 0xF0, CHR 0x9F, CHR 0x93, CHR 0xA6]"

definition skip_sign :: string where
  "skip_sign = [CHR 0xE2, CHR 0x8F, CHR 0xAD, CHR 0xEF, CHR 0xB8, CHR 0x8F]"

definition error_text :: "string \<Rightarrow> string" where
  "error_text m = ''Error: '' @ m"

function show_nat :: "nat \<Rightarrow> string" where
  "show_nat n =
     (if n < 10 then [char_of (48 + n)]
      else show_nat (n div 10) @ [char_of (48 + n mod 10)])"
  by pat_completeness auto
termination
  by (relation "measure (\<lambda>n. n)") auto

definition show_int :: "int \<Rightarrow> string" where
  "show_int i = (if i < 0 then ''-'' @ show_nat (nat (- i)) else show_nat (nat i))"

definition bool_toString :: "bool \<Rightarrow> string" where
  "bool_toString b = (if b then ''true'' else ''false'')"

text \<open>\<open>String.prototype.toLowerCase\<close> on the ASCII letters.\<close>

definition lower_char :: "char \<Rightarrow> char" where
  "lower_char c =
     (let n = (of_char c :: nat) in if 65 \<le> n \<and> n \<le> 90 then char_of (n + 32) else c)"

definition toLowerCase :: "string \<Rightarrow> string" where
  "toLowerCase s = map lower_char s"

text \<open>
  The white space of \<open>trim\<close> and of the regular expression class \<open>\s\<close>, as the UTF-8
  encodings of its code points: U+0009 to U+000D, U+0020, U+00A0, U+1680, U+2000 to
  U+200A, U+2028, U+2029, U+202F, U+205F, U+3000 and U+FEFF.  No encoding is a prefix of
  another, and in well-formed UTF-8 none occurs across a character boundary.
\<close>

definition ws_codes :: "string list" where
  "ws_codes =
     [ [CHR 0x09], [CHR 0x0A], [CHR 0x0B], [CHR 0x0C], [CHR 0x0D], [CHR 0x20],
      [CHR 0xC2, CHR 0xA0],
      [CHR 0xE1, CHR 0x9A, CHR 0x80],
      [CHR 0xE2, CHR 0x80, CHR 0x80], [CHR 0xE2, CHR 0x80, CHR 0x81],
      [CHR 0xE2, CHR 0x80, CHR 0x82], [CHR 0xE2, CHR 0x80, CHR 0x83],
      [CHR 0xE2, CHR 0x80, CHR 0x84], [CHR 0xE2, CHR 0x80, CHR 0x85],
      [CHR 0xE2, CHR 0x80, CHR 0x86], [CHR 0xE2, CHR 0x80, CHR 0x87],
      [CHR 0xE2, CHR 0x80, CHR 0x88], [CHR 0xE2, CHR 0x80, CHR 0x89],
      [CHR 0xE2, CHR 0x80, CHR 0x8A],
      [CHR 0xE2, CHR 0x80, CHR 0xA8], [CHR 0xE2, CHR 0x80, CHR 0xA9],
      [CHR 0xE2, CHR 0x80, CHR 0xAF],
      [CHR 0xE2, CHR 0x81, CHR 0x9F],
      [CHR 0xE3, CHR 0x80, CHR 0x80],
      [CHR 0xEF, CHR 0xBB, CHR 0xBF] ]"

text \<open>The rest of a string after the code (of one to three bytes) that it starts with, if any.\<close>

definition strip_code :: "string list \<Rightarrow> string \<Rightarrow> string option" where
  "strip_code codes s =
     (if take 1 s \<in> set codes then Some (drop 1 s)
      else if take 2 s \<in> set codes then Some (drop 2 s)
      else if take 3 s \<in> set codes then Some (drop 3 s)
      else None)"

function skip_codes :: "string list \<Rightarrow> string \<Rightarrow> string" where
  "skip_codes codes [] = []"
| "skip_codes codes (c # cs) =
     (case strip_code codes (c # cs) of
        None \<Rightarrow> c # cs
      | Some r \<Rightarrow> skip_codes codes r)"
  by pat_completeness auto
termination
  by (relation "measure (\<lambda>(codes, s). length s)")
     (auto simp: strip_code_def split: if_splits)

text \<open>\<open>s.trim()\<close>: the white space at the start is skipped, then the white space at the end.\<close>

definition js_trim :: "string \<Rightarrow> string" where
  "js_trim s = rev (skip_codes (map rev ws_codes) (rev (skip_codes ws_codes s)))"

text \<open>
  \<open>s.split(/\s+/)\<close>: the pieces between the maximal runs of white space.  The piece
  before a leading run and the piece after a trailing run are empty strings, and a
  string without white space (the empty string too) is returned as the only piece.
  The flag says that the scan is inside a run of white space.
\<close>

function split_ws_from :: "bool \<Rightarrow> string \<Rightarrow> string \<Rightarrow> string list" where
  "split_ws_from in_run cur [] = [rev cur]"
| "split_ws_from in_run cur (c # cs) =
     (case strip_code ws_codes (c # cs) of
        Some r \<Rightarrow>
          if in_run then split_ws_from True [] r else rev cur # split_ws_from True [] r
      | None \<Rightarrow> split_ws_from False (c # cur) cs)"
  by pat_completeness auto
termination
  by (relation "measure (\<lambda>(in_run, cur, s). length s)")
     (auto simp: strip_code_def split: if_splits)

definition js_split_ws :: "string \<Rightarrow> string list" where
  "js_split_ws s = split_ws_from False [] s"

section \<open>The runner: subprocesses, file system, inputs, logs\<close>

text \<open>
  \<open>exec.exec(command, args, options)\<close> of the actions toolkit starts a subprocess.
  The options the action uses are \<open>input\<close> (bytes written to the standard input),
  \<open>ignoreReturnCode\<close>, \<open>silent\<close> and \<open>env\<close>.
\<close>

record exec_options =
  input :: "string option"
  ignoreReturnCode :: bool
  silent :: bool
  env :: "(string \<times> string) list option"

definition no_options :: exec_options where
  "no_options = \<lparr>input = None, ignoreReturnCode = False, silent = False, env = None\<rparr>"

record invocation =
  command :: string
  argv :: "string list"
  options :: exec_options

text \<open>What the outside world answers to an invocation: an exit code, or no process at all.\<close>

datatype proc_outcome = Exited int | SpawnError string

datatype log_entry = Info string | Warning string

text \<open>
  Everything the action reads from its surroundings: the answer to each invocation
  (which may depend on the invocations made before), the files that exist, the
  \<open>path\<close> functions of the platform, the step inputs as \<open>core.getInput\<close> returns them,
  and the process environment.
\<close>

record platform =
  respond :: "invocation list \<Rightarrow> invocation \<Rightarrow> proc_outcome"
  existsSync :: "string \<Rightarrow> bool"
  path_join :: "string \<Rightarrow> string \<Rightarrow> string"
  path_resolve :: "string \<Rightarrow> string"
  getInput :: "string \<Rightarrow> string"
  process_env :: "(string \<times> string) list"

text \<open>
  Everything the action does to its surroundings: the \<open>exec.exec\<close> calls in order,
  the log lines, the outputs set with \<open>core.setOutput\<close>, the text appended to files,
  and the failure reports of \<open>core.setFailed\<close>.
\<close>

record world =
  spawned :: "invocation list"
  logged :: "log_entry list"
  outputs :: "(string \<times> string) list"
  appended :: "(string \<times> string) list"
  failed :: "string list"

definition empty_world :: world where
  "empty_world = \<lparr>spawned = [], logged = [], outputs = [], appended = [], failed = []\<rparr>"

definition info :: "string \<Rightarrow> world \<Rightarrow> world" where
  "info m w = w\<lparr>logged := logged w @ [Info m]\<rparr>"

definition warning :: "string \<Rightarrow> world \<Rightarrow> world" where
  "warning m w = w\<lparr>logged := logged w @ [Warning m]\<rparr>"

definition setOutput :: "string \<Rightarrow> string \<Rightarrow> world \<Rightarrow> world" where
  "setOutput k v w = w\<lparr>outputs := outputs w @ [(k, v)]\<rparr>"

definition appendFileSync :: "string \<Rightarrow> string \<Rightarrow> world \<Rightarrow> world" where
  "appendFileSync p t w = w\<lparr>appended := appended w @ [(p, t)]\<rparr>"

definition setFailed :: "string \<Rightarrow> world \<Rightarrow> world" where
  "setFailed m w = w\<lparr>failed := failed w @ [m]\<rparr>"

text \<open>\<open>process.env.NAME\<close>, with \<open>undefined\<close> read as the empty string (both are falsy).\<close>

definition env_get :: "platform \<Rightarrow> string \<Rightarrow> string" where
  "env_get pf k = (case map_of (process_env pf) k of None \<Rightarrow> [] | Some v \<Rightarrow> v)"

text \<open>\<open>a || b\<close> on strings: the first operand unless it is empty.\<close>

definition js_or :: "string \<Rightarrow> string \<Rightarrow> string" where
  "js_or a b = (if a \<noteq> [] then a else b)"

text \<open>
  The promise of \<open>exec.exec\<close>: it rejects when the process cannot be started, and
  when it exits non-zero unless \<open>ignoreReturnCode\<close> is set; otherwise it resolves
  to the exit code.  The call is recorded either way.  The toolkit's message for a
  non-zero exit quotes the path of the tool; the model quotes the command name.
\<close>

definition exit_failure :: "string \<Rightarrow> int \<Rightarrow> string" where
  "exit_failure cmd c =
     ''The process '' @ [CHR 0x27] @ cmd @ [CHR 0x27] @ '' failed with exit code '' @ show_int c"

definition exec :: "platform \<Rightarrow> string \<Rightarrow> string list \<Rightarrow> exec_options \<Rightarrow> world
    \<Rightarrow> (string + int) \<times> world" where
  "exec pf cmd as opts w =
     (let inv = \<lparr>command = cmd, argv = as, options = opts\<rparr>;
          w1 = w\<lparr>spawned := spawned w @ [inv]\<rparr>
      in case respond pf (spawned w) inv of
           SpawnError e \<Rightarrow> (Inl e, w1)
         | Exited c \<Rightarrow>
             if c \<noteq> 0 \<and> \<not> ignoreReturnCode opts then (Inl (exit_failure cmd c), w1)
             else (Inr c, w1))"

text \<open>Sequencing of awaited calls, and \<open>try { ... } catch (error) { throw new Error(f error) }\<close>.\<close>

definition and_then :: "(string + 'a) \<times> world \<Rightarrow> ('a \<Rightarrow> world \<Rightarrow> (string + 'b) \<times> world)
    \<Rightarrow> (string + 'b) \<times> world" where
  "and_then r k = (case r of (Inl e, w) \<Rightarrow> (Inl e, w) | (Inr v, w) \<Rightarrow> k v w)"

definition rethrow :: "(string \<Rightarrow> string) \<Rightarrow> (string + 'a) \<times> world \<Rightarrow> (string + 'a) \<times> world" where
  "rethrow f r = (case r of (Inl e, w) \<Rightarrow> (Inl (f e), w) | (Inr v, w) \<Rightarrow> (Inr v, w))"

section \<open>The components\<close>

subsection \<open>Availability check (\<open>ensure-docker-engine.ts\<close>)\<close>

definition ensureDockerEngine :: "platform \<Rightarrow> world \<Rightarrow> (string + unit) \<times> world" where
  "ensureDockerEngine pf w =
     rethrow
       (\<lambda>e. cross_mark @ '' Docker is not available. Please ensure Docker is installed and running. Error: ''
            @ error_text e)
       (and_then (exec pf ''docker'' [''--version''] (no_options\<lparr>silent := True\<rparr>) w)
          (\<lambda>_ w1. (Inr (), info (check_mark @ '' Docker engine is available and ready'') w1)))"

subsection \<open>Registry session (\<open>registry-login.ts\<close>)\<close>

definition registryLogin :: "platform \<Rightarrow> string \<Rightarrow> string \<Rightarrow> string \<Rightarrow> world
    \<Rightarrow> (string + unit) \<times> world" where
  "registryLogin pf registryUrl username password w =
     rethrow (\<lambda>e. cross_mark @ '' Failed to login to registry: '' @ error_text e)
       (and_then
          (exec pf ''docker'' [''login'', registryUrl, ''-u'', username, ''--password-stdin'']
             (no_options\<lparr>input := Some password, silent := True\<rparr>) w)
          (\<lambda>_ w1. (Inr (), info (check_mark @ '' Successfully logged into registry: '' @ registryUrl) w1)))"

subsection \<open>Existence prober (\<open>check-image-exists.ts\<close>)\<close>

text \<open>
  The body of the \<open>try\<close> block, which may throw, and the function with its \<open>catch\<close>,
  which logs the error and returns \<open>false\<close>.
\<close>

definition checkImageExists_try :: "platform \<Rightarrow> string \<Rightarrow> string \<Rightarrow> string \<Rightarrow> world
    \<Rightarrow> (string + bool) \<times> world" where
  "checkImageExists_try pf registryUrl imageName version w =
     (let fullImageName = registryUrl @ ''/'' @ imageName @ '':'' @ version
      in and_then
           (exec pf ''docker'' [''manifest'', ''inspect'', fullImageName]
              (no_options\<lparr>ignoreReturnCode := True, silent := True\<rparr>) w)
           (\<lambda>exitCode w1.
              let exists = (exitCode = 0)
              in (Inr exists,
                  info (package_sign @ '' Image '' @ fullImageName @ '' ''
                        @ (if exists then ''exists'' else ''does not exist'')) w1)))"

definition checkImageExists :: "platform \<Rightarrow> string \<Rightarrow> string \<Rightarrow> string \<Rightarrow> world
    \<Rightarrow> bool \<times> world" where
  "checkImageExists pf registryUrl imageName version w =
     (case checkImageExists_try pf registryUrl imageName version w of
        (Inr exists, w1) \<Rightarrow> (exists, w1)
      | (Inl e, w1) \<Rightarrow>
          (False, info (cross_mark @ '' Error checking image existence: '' @ error_text e) w1))"

subsection \<open>Image builder\<close>

text \<open>
  The classic builder of \<open>build.ts\<close>: the Dockerfile path is the project path joined
  with the Dockerfile name, and the image is built locally with \<open>docker build\<close>.
\<close>

definition build :: "platform \<Rightarrow> string \<Rightarrow> string \<Rightarrow> string \<Rightarrow> string \<Rightarrow> world
    \<Rightarrow> (string + unit) \<times> world" where
  "build pf projectPath dockerfileName imageName version w =
     rethrow (\<lambda>e. cross_mark @ '' Failed to build: '' @ error_text e)
       (let dockerfilePath = path_join pf projectPath dockerfileName
        in if \<not> existsSync pf dockerfilePath
           then (Inl (cross_mark @ '' Dockerfile not found at: '' @ dockerfilePath), w)
           else
             let fullImageName = imageName @ '':'' @ version
             in and_then
                  (exec pf ''docker''
                     [''build'', ''-t'', fullImageName, ''-f'', dockerfilePath, projectPath]
                     no_options w)
                  (\<lambda>_ w1. (Inr (), info (check_mark @ '' Successfully built: '' @ fullImageName) w1)))"

text \<open>
  The builder with base-image refresh, extra arguments and integrated push
  (the revision of \<open>build.ts\<close> that takes \<open>registryUrl\<close>, \<open>args\<close> and \<open>pullLatest\<close>).
  The Dockerfile path is \<open>resolve(dockerfileName)\<close>; the pull has a \<open>try\<close>/\<open>catch\<close> of its
  own that turns its failure into a warning.
\<close>

definition pull_latest :: "platform \<Rightarrow> string \<Rightarrow> string \<Rightarrow> world \<Rightarrow> world" where
  "pull_latest pf registryUrl imageName w =
     (case exec pf ''docker'' [''pull'', registryUrl @ ''/'' @ imageName @ '':latest''] no_options w of
        (Inr _, w1) \<Rightarrow> w1
      | (Inl e, w1) \<Rightarrow>
          warning (warning_sign @ '' Failed to pull '' @ registryUrl @ ''/'' @ imageName
                   @ '':latest: '' @ error_text e) w1)"

definition build_argv :: "string \<Rightarrow> string \<Rightarrow> string \<Rightarrow> string \<Rightarrow> string \<Rightarrow> string list" where
  "build_argv registryUrl fullImageName dockerfilePath projectPath args =
     [''buildx'', ''build'', ''-t'', registryUrl @ ''/'' @ fullImageName, ''-f'', dockerfilePath,
      projectPath] @ js_split_ws (js_trim args) @ [''--push'']"

definition build_buildx :: "platform \<Rightarrow> string \<Rightarrow> string \<Rightarrow> string \<Rightarrow> string \<Rightarrow> string
    \<Rightarrow> string \<Rightarrow> bool \<Rightarrow> world \<Rightarrow> (string + unit) \<times> world" where
  "build_buildx pf projectPath dockerfileName imageName version registryUrl args pullLatest w =
     rethrow (\<lambda>e. cross_mark @ '' Failed to build: '' @ error_text e)
       (let dockerfilePath = path_resolve pf dockerfileName
        in if \<not> existsSync pf dockerfilePath
           then (Inl (cross_mark @ '' Dockerfile not found at: '' @ dockerfilePath), w)
           else
             let fullImageName = imageName @ '':'' @ version;
                 w1 = (if pullLatest then pull_latest pf registryUrl imageName w else w)
             in and_then
                  (exec pf ''docker''
                     (build_argv registryUrl fullImageName dockerfilePath projectPath args)
                     (no_options\<lparr>env := Some (process_env pf)\<rparr>) w1)
                  (\<lambda>_ w2. (Inr (), info (check_mark @ '' Successfully built: '' @ fullImageName) w2)))"

text \<open>
  The same \<open>build\<close> when its sixth argument is a boolean and there is no seventh, which
  is how \<open>docker\<close> calls it: \<open>pullLatest\<close> takes its default \<open>true\<close>, so the pull is
  attempted, and then \<open>args.trim\<close> is not a function, so that the evaluation of the
  argument list of the build invocation throws a \<open>TypeError\<close> before \<open>exec.exec\<close> is
  called.  The \<open>catch\<close> of \<open>build\<close> rethrows it.
\<close>

definition build_buildx_boolean_args :: "platform \<Rightarrow> string \<Rightarrow> string \<Rightarrow> string \<Rightarrow> string
    \<Rightarrow> string \<Rightarrow> bool \<Rightarrow> world \<Rightarrow> (string + unit) \<times> world" where
  "build_buildx_boolean_args pf projectPath dockerfileName imageName version registryUrl args w =
     (let dockerfilePath = path_resolve pf dockerfileName
      in if \<not> existsSync pf dockerfilePath
         then (Inl (cross_mark @ '' Failed to build: '' @
                    error_text (cross_mark @ '' Dockerfile not found at: '' @ dockerfilePath)), w)
         else (Inl (cross_mark @ '' Failed to build: TypeError: args.trim is not a function''),
               pull_latest pf registryUrl imageName w))"

subsection \<open>Publisher\<close>

text \<open>
  \<open>push.ts\<close>: tag and push the versioned reference, then tag and push \<open>latest\<close>; one
  \<open>catch\<close> around the four calls, whose message carries the versioned reference.
\<close>

definition push :: "platform \<Rightarrow> string \<Rightarrow> string \<Rightarrow> string \<Rightarrow> world \<Rightarrow> (string + unit) \<times> world" where
  "push pf registryUrl imageName version w =
     (let localImageName = imageName @ '':'' @ version;
          remoteImageName = registryUrl @ ''/'' @ imageName @ '':'' @ version;
          latestImageName = registryUrl @ ''/'' @ imageName @ '':latest''
      in rethrow (\<lambda>e. cross_mark @ '' Failed to push '' @ remoteImageName @ '': '' @ error_text e)
           (and_then (exec pf ''docker'' [''tag'', localImageName, remoteImageName] no_options w)
              (\<lambda>_ w1.
            and_then (exec pf ''docker'' [''push'', remoteImageName] no_options w1)
              (\<lambda>_ w2.
            and_then
              (exec pf ''docker'' [''tag'', localImageName, latestImageName] no_options
                 (info (check_mark @ '' Successfully pushed: '' @ remoteImageName) w2))
              (\<lambda>_ w3.
            and_then (exec pf ''docker'' [''push'', latestImageName] no_options w3)
              (\<lambda>_ w4.
                 (Inr (),
                  info (check_mark @ '' Successfully pushed as latest: '' @ latestImageName) w4)))))))"

text \<open>The revision of \<open>push.ts\<close> that publishes the versioned reference only.\<close>

definition push_versioned :: "platform \<Rightarrow> string \<Rightarrow> string \<Rightarrow> string \<Rightarrow> world
    \<Rightarrow> (string + unit) \<times> world" where
  "push_versioned pf registryUrl imageName version w =
     (let localImageName = imageName @ '':'' @ version;
          remoteImageName = registryUrl @ ''/'' @ imageName @ '':'' @ version
      in rethrow (\<lambda>e. cross_mark @ '' Failed to push '' @ remoteImageName @ '': '' @ error_text e)
           (and_then (exec pf ''docker'' [''tag'', localImageName, remoteImageName] no_options w)
              (\<lambda>_ w1.
            and_then (exec pf ''docker'' [''push'', remoteImageName] no_options w1)
              (\<lambda>_ w2. (Inr (), info (check_mark @ '' Successfully pushed: '' @ remoteImageName) w2)))))"

section \<open>The orchestrator (\<open>index.ts\<close>)\<close>

record Input =
  projectPath :: string
  imageName :: string
  dockerfileName :: string
  version :: string
  registryUrl :: string
  registryUsername :: string
  registryPassword :: string
  args :: string
  pullLatest :: bool

record Output =
  image_out :: string
  tag :: string
  href :: string
  skipped :: bool

text \<open>
  \<open>docker\<close> calls \<open>build\<close> with six arguments: the project path, the Dockerfile name,
  the image name, the version, the extra arguments and the pull flag of the request.
  The revision of the builder with exactly these six parameters is not among the
  sources, so the build step is a parameter of the orchestrator: a function of the
  request.  The two builders of the sources give two instances, each as JavaScript
  runs the call by position.  On the four-parameter \<open>build\<close> the two surplus arguments
  are dropped (\<open>classic_builder\<close>).  On the seven-parameter \<open>build\<close> the parameter
  \<open>registryUrl\<close> receives the extra arguments and the parameter \<open>args\<close> receives the
  boolean pull flag (\<open>buildx_builder\<close>).
\<close>

type_synonym builder = "Input \<Rightarrow> world \<Rightarrow> (string + unit) \<times> world"

definition classic_builder :: "platform \<Rightarrow> builder" where
  "classic_builder pf inputs =
     build pf (projectPath inputs) (dockerfileName inputs) (imageName inputs) (version inputs)"

definition buildx_builder :: "platform \<Rightarrow> builder" where
  "buildx_builder pf inputs =
     build_buildx_boolean_args pf (projectPath inputs) (dockerfileName inputs) (imageName inputs)
       (version inputs) (args inputs) (pullLatest inputs)"

definition meta :: "Input \<Rightarrow> bool \<Rightarrow> Output" where
  "meta inputs s =
     \<lparr>image_out = imageName inputs,
      tag = version inputs,
      href = registryUrl inputs @ ''/'' @ imageName inputs @ '':'' @ version inputs,
      skipped = s\<rparr>"

definition docker :: "platform \<Rightarrow> builder \<Rightarrow> Input \<Rightarrow> world \<Rightarrow> (string + Output) \<times> world" where
  "docker pf bld inputs w =
     rethrow (\<lambda>m. cross_mark @ '' Docker push failed: '' @ m)
       (and_then (ensureDockerEngine pf w)
          (\<lambda>_ w1.
        and_then
          (registryLogin pf (registryUrl inputs) (registryUsername inputs) (registryPassword inputs) w1)
          (\<lambda>_ w2.
             case checkImageExists pf (registryUrl inputs) (imageName inputs) (version inputs) w2 of
               (imageExists, w3) \<Rightarrow>
                 if imageExists
                 then (Inr (meta inputs True),
                       info (skip_sign @ ''  Image already exists, skipping build and push'') w3)
                 else
                   and_then (bld inputs w3)
                     (\<lambda>_ w4.
                   and_then (push pf (registryUrl inputs) (imageName inputs) (version inputs) w4)
                     (\<lambda>_ w5.
                        (Inr (meta inputs False),
                         info (check_mark @ '' Docker push process completed successfully'') w5))))))"

text \<open>
  \<open>run\<close>: read the inputs (step input first, then the environment variable, then the
  default), validate the six required ones, call \<open>docker\<close>, write the four outputs;
  one \<open>catch\<close> around all of it reports the failure.
\<close>

definition read_input :: "platform \<Rightarrow> Input" where
  "read_input pf =
     \<lparr>projectPath = js_or (getInput pf ''project-path'') (js_or (env_get pf ''INPUT_PROJECT_PATH'') []),
      imageName = js_or (getInput pf ''image-name'') (js_or (env_get pf ''INPUT_IMAGE_NAME'') []),
      dockerfileName =
        js_or (getInput pf ''dockerfile-name'') (js_or (env_get pf ''INPUT_DOCKERFILE_NAME'') ''Dockerfile''),
      version = js_or (getInput pf ''version'') (js_or (env_get pf ''INPUT_VERSION'') []),
      registryUrl = js_or (getInput pf ''registry-url'') (js_or (env_get pf ''INPUT_REGISTRY_URL'') []),
      registryUsername =
        js_or (getInput pf ''registry-username'') (js_or (env_get pf ''INPUT_REGISTRY_USERNAME'') []),
      registryPassword =
        js_or (getInput pf ''registry-password'') (js_or (env_get pf ''INPUT_REGISTRY_PASSWORD'') []),
      args = js_or (getInput pf ''args'') (js_or (env_get pf ''INPUT_ARGS'') []),
      pullLatest =
        (toLowerCase (js_or (getInput pf ''pull-latest'') (js_or (env_get pf ''INPUT_PULL_LATEST'') ''true''))
         = ''true'')\<rparr>"

definition validate :: "Input \<Rightarrow> string option" where
  "validate i =
     (if projectPath i = [] then Some ''project-path is required''
      else if imageName i = [] then Some ''image-name is required''
      else if version i = [] then Some ''version is required''
      else if registryUrl i = [] then Some ''registry-url is required''
      else if registryUsername i = [] then Some ''registry-username is required''
      else if registryPassword i = [] then Some ''registry-password is required''
      else None)"

definition write_outputs :: "platform \<Rightarrow> Output \<Rightarrow> world \<Rightarrow> world" where
  "write_outputs pf result w =
     (let w1 = setOutput ''image'' (image_out result) w;
          w2 = setOutput ''tag'' (tag result) w1;
          w3 = setOutput ''href'' (href result) w2;
          w4 = setOutput ''skipped'' (bool_toString (skipped result)) w3;
          file = env_get pf ''GITHUB_OUTPUT''
      in if file \<noteq> []
         then appendFileSync file (''skipped='' @ bool_toString (skipped result) @ [CHR 0x0A])
                (appendFileSync file (''href='' @ href result @ [CHR 0x0A])
                  (appendFileSync file (''tag='' @ tag result @ [CHR 0x0A])
                    (appendFileSync file (''image='' @ image_out result @ [CHR 0x0A]) w4)))
         else w4)"

definition run_try :: "platform \<Rightarrow> builder \<Rightarrow> world \<Rightarrow> (string + unit) \<times> world" where
  "run_try pf bld w =
     (let inp = read_input pf
      in case validate inp of
           Some m \<Rightarrow> (Inl m, w)
         | None \<Rightarrow>
             and_then (docker pf bld inp w) (\<lambda>result w1. (Inr (), write_outputs pf result w1)))"

definition run :: "platform \<Rightarrow> builder \<Rightarrow> world \<Rightarrow> world" where
  "run pf bld w =
     (case run_try pf bld w of
        (Inr _, w1) \<Rightarrow> w1
      | (Inl m, w1) \<Rightarrow> setFailed (cross_mark @ '' Action failed: '' @ m) w1)"

section \<open>Concrete runners and requests\<close>

text \<open>
  A runner whose subprocesses exit with a code that depends on the argument list only,
  with a given list of existing files and given step inputs; \<open>join\<close> puts a slash between
  its arguments and \<open>resolve\<close> prefixes the working directory \<open>/work\<close>.
\<close>

definition runner :: "(string list \<Rightarrow> int) \<Rightarrow> string list \<Rightarrow> (string \<times> string) list \<Rightarrow> platform" where
  "runner exit_code files inputs =
     \<lparr>respond = (\<lambda>hist inv. Exited (exit_code (argv inv))),
      existsSync = (\<lambda>p. p \<in> set files),
      path_join = (\<lambda>a b. a @ ''/'' @ b),
      path_resolve = (\<lambda>p. ''/work/'' @ p),
      getInput = (\<lambda>k. case map_of inputs k of None \<Rightarrow> [] | Some v \<Rightarrow> v),
      process_env = []\<rparr>"

definition all_succeed :: "string list \<Rightarrow> int" where
  "all_succeed as = 0"

definition image_absent :: "string list \<Rightarrow> int" where
  "image_absent as = (if take 2 as = [''manifest'', ''inspect''] then 1 else 0)"

definition pull_failing :: "string list \<Rightarrow> int" where
  "pull_failing as =
     (if take 2 as = [''manifest'', ''inspect''] \<or> take 1 as = [''pull''] then 1 else 0)"

definition latest_push_failing :: "string list \<Rightarrow> int" where
  "latest_push_failing as =
     (if take 2 as = [''manifest'', ''inspect''] \<or> as = [''push'', ''reg.example/app:latest'']
      then 1 else 0)"

definition demo_inputs :: "(string \<times> string) list" where
  "demo_inputs =
     [(''project-path'', ''app''), (''image-name'', ''app''), (''version'', ''v1''),
      (''registry-url'', ''reg.example''), (''registry-username'', ''ci''),
      (''registry-password'', ''s3cret'')]"

definition demo_files :: "string list" where
  "demo_files = [''app/Dockerfile'', ''/work/Dockerfile'']"

definition registry_has_image :: platform where
  "registry_has_image = runner all_succeed demo_files demo_inputs"

definition registry_lacks_image :: platform where
  "registry_lacks_image = runner image_absent demo_files demo_inputs"

definition pull_fails :: platform where
  "pull_fails = runner pull_failing demo_files demo_inputs"

definition latest_push_fails :: platform where
  "latest_push_fails = runner latest_push_failing demo_files demo_inputs"

definition version_missing :: platform where
  "version_missing =
     runner all_succeed demo_files
       [(''project-path'', ''app''), (''image-name'', ''app''), (''registry-url'', ''reg.example''),
        (''registry-username'', ''ci''), (''registry-password'', ''s3cret'')]"

definition dockerfile_in_cwd_only :: platform where
  "dockerfile_in_cwd_only = runner image_absent [''/work/Dockerfile''] demo_inputs"

definition demo_request :: Input where
  "demo_request =
     \<lparr>projectPath = ''app'', imageName = ''app'', dockerfileName = ''Dockerfile'',
      version = ''v1'', registryUrl = ''reg.example'', registryUsername = ''ci'',
      registryPassword = ''s3cret'', args = [], pullLatest = True\<rparr>"

text \<open>A step leaves the outputs, the appended files and the failure reports untouched.\<close>

definition same_reports :: "world \<Rightarrow> world \<Rightarrow> bool" where
  "same_reports w w' =
     (outputs w' = outputs w \<and> appended w' = appended w \<and> failed w' = failed w)"

text \<open>
  The argument lists that the components pass to \<open>exec.exec\<close> for a request, in the
  order of the source files: version query, login, manifest inspection, classic build,
  pull (from the registry, and as \<open>docker\<close> calls the builder that pulls), build with
  push, and the four invocations of the publisher.  The registry password is not read.
\<close>

definition command_lines :: "platform \<Rightarrow> Input \<Rightarrow> string list list" where
  "command_lines pf i =
     [ [''--version''],
      [''login'', registryUrl i, ''-u'', registryUsername i, ''--password-stdin''],
      [''manifest'', ''inspect'', registryUrl i @ ''/'' @ imageName i @ '':'' @ version i],
      [''build'', ''-t'', imageName i @ '':'' @ version i, ''-f'',
       path_join pf (projectPath i) (dockerfileName i), projectPath i],
      [''pull'', registryUrl i @ ''/'' @ imageName i @ '':latest''],
      [''pull'', args i @ ''/'' @ imageName i @ '':latest''],
      build_argv (registryUrl i) (imageName i @ '':'' @ version i)
        (path_resolve pf (dockerfileName i)) (projectPath i) (args i),
      [''tag'', imageName i @ '':'' @ version i,
       registryUrl i @ ''/'' @ imageName i @ '':'' @ version i],
      [''push'', registryUrl i @ ''/'' @ imageName i @ '':'' @ version i],
      [''tag'', imageName i @ '':'' @ version i, registryUrl i @ ''/'' @ imageName i @ '':latest''],
      [''push'', registryUrl i @ ''/'' @ imageName i @ '':latest''] ]"

text \<open>
  An invocation is password-safe for a request when its argument list is one of those,
  and it has no standard input unless it is the login, whose input is the password.
\<close>

definition password_safe :: "platform \<Rightarrow> Input \<Rightarrow> invocation \<Rightarrow> bool" where
  "password_safe pf i call =
     (argv call \<in> set (command_lines pf i)
      \<and> (case input (options call) of
           None \<Rightarrow> True
         | Some s \<Rightarrow>
             s = registryPassword i
             \<and> argv call = [''login'', registryUrl i, ''-u'', registryUsername i, ''--password-stdin'']))"

text \<open>
  The error with which \<open>exec.exec\<close> rejects for an answer of the outside world when
  \<open>ignoreReturnCode\<close> is not set; \<open>None\<close> when it resolves.
\<close>

definition rejection :: "string \<Rightarrow> proc_outcome \<Rightarrow> string option" where
  "rejection cmd outcome =
     (case outcome of
        SpawnError e \<Rightarrow> Some e
      | Exited c \<Rightarrow> if c \<noteq> 0 then Some (exit_failure cmd c) else None)"

text \<open>
  An invocation that builds with integrated push: \<open>docker buildx build\<close> with the flag
  \<open>--push\<close>, which is what the builder with the pull step spawns.
\<close>

definition integrated_push :: "invocation \<Rightarrow> bool" where
  "integrated_push call =
     (take 2 (argv call) = [''buildx'', ''build''] \<and> ''--push'' \<in> set (argv call))"

section \<open>Facts about the runner and the components\<close>

lemma show_int_1: "show_int 1 = ''1''"
  by code_simp

lemma exec_spawned:
  "spawned (snd (exec pf cmd as opts w)) = spawned w @ [\<lparr>command = cmd, argv = as, options = opts\<rparr>]"
  by (simp add: exec_def Let_def split: proc_outcome.splits)

lemma exec_spawned_set:
  "exec pf cmd as opts w = (r, w') \<Longrightarrow>
     set (spawned w') = insert \<lparr>command = cmd, argv = as, options = opts\<rparr> (set (spawned w))"
  by (auto simp: exec_def Let_def split: proc_outcome.splits if_splits)

lemma exec_untouched:
  "logged (snd (exec pf cmd as opts w)) = logged w"
  "outputs (snd (exec pf cmd as opts w)) = outputs w"
  "appended (snd (exec pf cmd as opts w)) = appended w"
  "failed (snd (exec pf cmd as opts w)) = failed w"
  by (simp_all add: exec_def Let_def split: proc_outcome.splits)

lemma exec_result:
  "fst (exec pf cmd as opts w) =
     (case respond pf (spawned w) \<lparr>command = cmd, argv = as, options = opts\<rparr> of
        SpawnError e \<Rightarrow> Inl e
      | Exited c \<Rightarrow> if c \<noteq> 0 \<and> \<not> ignoreReturnCode opts then Inl (exit_failure cmd c) else Inr c)"
  by (simp add: exec_def Let_def split: proc_outcome.splits)

lemma ensureDockerEngine_spawned:
  "map argv (spawned (snd (ensureDockerEngine pf w))) = map argv (spawned w) @ [ [''--version''] ]"
  by (simp add: ensureDockerEngine_def and_then_def rethrow_def info_def exec_def Let_def
      split: prod.splits sum.splits proc_outcome.splits)

lemma registryLogin_spawned:
  "map argv (spawned (snd (registryLogin pf url user pw w))) =
     map argv (spawned w) @ [ [''login'', url, ''-u'', user, ''--password-stdin''] ]"
  by (simp add: registryLogin_def and_then_def rethrow_def info_def exec_def Let_def
      split: prod.splits sum.splits proc_outcome.splits)

lemma checkImageExists_spawned:
  "map argv (spawned (snd (checkImageExists pf url img ver w))) =
     map argv (spawned w) @ [ [''manifest'', ''inspect'', url @ ''/'' @ img @ '':'' @ ver] ]"
  by (simp add: checkImageExists_def checkImageExists_try_def and_then_def info_def exec_def Let_def
      split: prod.splits sum.splits proc_outcome.splits)

lemma docker_returns_meta:
  "docker pf bld inp w = (Inr out, w') \<Longrightarrow> out = meta inp (skipped out)"
  by (auto simp: docker_def and_then_def rethrow_def meta_def split: prod.splits sum.splits if_splits)

lemma and_then_Inr: "fst r = Inr v \<Longrightarrow> and_then r k = k v (snd r)"
  by (cases r) (simp add: and_then_def)

lemma and_then_Inl: "fst r = Inl e \<Longrightarrow> and_then r k = (Inl e, snd r)"
  by (cases r) (simp add: and_then_def)

lemma docker_skip:
  assumes "fst (ensureDockerEngine pf w) = Inr ()"
    and "fst (registryLogin pf (registryUrl inp) (registryUsername inp) (registryPassword inp)
               (snd (ensureDockerEngine pf w))) = Inr ()"
    and "fst (checkImageExists pf (registryUrl inp) (imageName inp) (version inp)
               (snd (registryLogin pf (registryUrl inp) (registryUsername inp) (registryPassword inp)
                      (snd (ensureDockerEngine pf w)))))"
  shows "docker pf bld inp w =
           (Inr (meta inp True),
            info (skip_sign @ ''  Image already exists, skipping build and push'')
              (snd (checkImageExists pf (registryUrl inp) (imageName inp) (version inp)
                 (snd (registryLogin pf (registryUrl inp) (registryUsername inp) (registryPassword inp)
                        (snd (ensureDockerEngine pf w)))))))"
  using assms
  by (simp add: docker_def and_then_Inr case_prod_beta rethrow_def)

lemma docker_build_and_push:
  assumes "fst (ensureDockerEngine pf w) = Inr ()"
    and "fst (registryLogin pf (registryUrl inp) (registryUsername inp) (registryPassword inp)
               (snd (ensureDockerEngine pf w))) = Inr ()"
    and "\<not> fst (checkImageExists pf (registryUrl inp) (imageName inp) (version inp)
               (snd (registryLogin pf (registryUrl inp) (registryUsername inp) (registryPassword inp)
                      (snd (ensureDockerEngine pf w)))))"
  shows "docker pf bld inp w =
           rethrow (\<lambda>m. cross_mark @ '' Docker push failed: '' @ m)
             (and_then
                (bld inp
                   (snd (checkImageExists pf (registryUrl inp) (imageName inp) (version inp)
                      (snd (registryLogin pf (registryUrl inp) (registryUsername inp)
                              (registryPassword inp) (snd (ensureDockerEngine pf w)))))))
                (\<lambda>_ w4.
                   and_then (push pf (registryUrl inp) (imageName inp) (version inp) w4)
                     (\<lambda>_ w5.
                        (Inr (meta inp False),
                         info (check_mark @ '' Docker push process completed successfully'') w5))))"
  using assms
  by (simp add: docker_def and_then_Inr case_prod_beta)


text \<open>Only \<open>run\<close> writes outputs and failure reports; the components spawn and log.\<close>

lemma same_reports_refl: "same_reports w w"
  by (simp add: same_reports_def)

lemma same_reports_trans: "same_reports a b \<Longrightarrow> same_reports b c \<Longrightarrow> same_reports a c"
  by (simp add: same_reports_def)

lemma exec_reports: "exec pf cmd as opts w = (r, w') \<Longrightarrow> same_reports w w'"
  by (auto simp: same_reports_def exec_def Let_def split: proc_outcome.splits if_splits)

lemma info_reports: "same_reports w (info m w)"
  by (simp add: same_reports_def info_def)

lemma warning_reports: "same_reports w (warning m w)"
  by (simp add: same_reports_def warning_def)

lemma ensureDockerEngine_reports: "ensureDockerEngine pf w = (r, w') \<Longrightarrow> same_reports w w'"
  by (auto simp: ensureDockerEngine_def and_then_def rethrow_def info_def same_reports_def
      split: prod.splits sum.splits dest!: exec_reports)

lemma registryLogin_reports: "registryLogin pf url user pw w = (r, w') \<Longrightarrow> same_reports w w'"
  by (auto simp: registryLogin_def and_then_def rethrow_def info_def same_reports_def
      split: prod.splits sum.splits dest!: exec_reports)

lemma checkImageExists_reports: "checkImageExists pf url img ver w = (r, w') \<Longrightarrow> same_reports w w'"
  by (auto simp: checkImageExists_def checkImageExists_try_def and_then_def info_def
      same_reports_def Let_def split: prod.splits sum.splits dest!: exec_reports)

lemma build_reports: "build pf pp df img ver w = (r, w') \<Longrightarrow> same_reports w w'"
  by (auto simp: build_def and_then_def rethrow_def info_def same_reports_def Let_def
      split: prod.splits sum.splits if_splits dest!: exec_reports)

lemma pull_latest_reports: "same_reports w (pull_latest pf url img w)"
  by (auto simp: pull_latest_def warning_def same_reports_def
      split: prod.splits sum.splits dest!: exec_reports)

lemma build_buildx_reports:
  "build_buildx pf pp df img ver url a pl w = (r, w') \<Longrightarrow> same_reports w w'"
  using pull_latest_reports [of w pf url img]
  by (auto simp: build_buildx_def and_then_def rethrow_def info_def same_reports_def Let_def
      split: prod.splits sum.splits if_splits dest!: exec_reports)

lemma push_reports: "push pf url img ver w = (r, w') \<Longrightarrow> same_reports w w'"
  by (auto simp: push_def and_then_def rethrow_def info_def same_reports_def Let_def
      split: prod.splits sum.splits dest!: exec_reports)

lemma classic_builder_reports: "same_reports w0 (snd (classic_builder pf i w0))"
  using build_reports [of pf _ _ _ _ w0 "fst (classic_builder pf i w0)" "snd (classic_builder pf i w0)"]
  by (simp add: classic_builder_def)

lemma buildx_builder_reports: "same_reports w0 (snd (buildx_builder pf i w0))"
  using pull_latest_reports [of w0 pf "args i" "imageName i"]
  by (simp add: buildx_builder_def build_buildx_boolean_args_def same_reports_def Let_def)

lemma docker_reports:
  assumes bld: "\<forall>i w0. same_reports w0 (snd (bld i w0))"
    and run: "docker pf bld inp w = (r, w')"
  shows "same_reports w w'"
proof -
  have b: "bld i w0 = (rb, wb) \<Longrightarrow> same_reports w0 wb" for i w0 rb wb
    using bld [rule_format, of w0 i] by simp
  show ?thesis
    using run
    by (auto simp: docker_def and_then_def rethrow_def info_def same_reports_def
        split: prod.splits sum.splits if_splits
        dest!: ensureDockerEngine_reports registryLogin_reports checkImageExists_reports
          push_reports b)
qed


section \<open>The orchestrator's result\<close>

text \<open>
  Claim C1.  Whatever \<open>docker\<close> returns has \<open>href = registry-url/image-name:version\<close>
  (and the image name and version of the request).  When the engine check and the login
  succeed and the existence probe returns true, \<open>docker\<close> returns \<open>skipped = true\<close> and the
  only subprocesses of the run are the version query, the login and the manifest
  inspection: the build step and the push are not invoked.  When the probe returns
  false and the build step and the push succeed, it returns \<open>skipped = false\<close>.
\<close>

theorem docker_href_and_skipped:
  "(\<forall>out w'. docker pf bld inp w = (Inr out, w') \<longrightarrow>
      href out = registryUrl inp @ ''/'' @ imageName inp @ '':'' @ version inp
      \<and> image_out out = imageName inp \<and> tag out = version inp)
   \<and> (let e = ensureDockerEngine pf w;
           l = registryLogin pf (registryUrl inp) (registryUsername inp) (registryPassword inp) (snd e);
           c = checkImageExists pf (registryUrl inp) (imageName inp) (version inp) (snd l);
           b = bld inp (snd c);
           p = push pf (registryUrl inp) (imageName inp) (version inp) (snd b)
       in (fst e = Inr () \<and> fst l = Inr () \<and> fst c \<longrightarrow>
             fst (docker pf bld inp w) = Inr (meta inp True)
             \<and> skipped (meta inp True)
             \<and> map argv (spawned (snd (docker pf bld inp w))) =
                 map argv (spawned w) @
                 [ [''--version''],
                  [''login'', registryUrl inp, ''-u'', registryUsername inp, ''--password-stdin''],
                  [''manifest'', ''inspect'',
                   registryUrl inp @ ''/'' @ imageName inp @ '':'' @ version inp] ])
        \<and> (fst e = Inr () \<and> fst l = Inr () \<and> \<not> fst c \<and> fst b = Inr () \<and> fst p = Inr () \<longrightarrow>
             fst (docker pf bld inp w) = Inr (meta inp False)
             \<and> \<not> skipped (meta inp False)
             \<and> spawned (snd (docker pf bld inp w)) = spawned (snd p)))"
proof -
  have fields: "\<forall>out w'. docker pf bld inp w = (Inr out, w') \<longrightarrow>
      href out = registryUrl inp @ ''/'' @ imageName inp @ '':'' @ version inp
      \<and> image_out out = imageName inp \<and> tag out = version inp"
  proof (intro allI impI)
    fix out w'
    assume "docker pf bld inp w = (Inr out, w')"
    then have "out = meta inp (skipped out)"
      by (rule docker_returns_meta)
    then have "href out = href (meta inp (skipped out))"
      and "image_out out = image_out (meta inp (skipped out))"
      and "tag out = tag (meta inp (skipped out))"
      by simp_all
    then show "href out = registryUrl inp @ ''/'' @ imageName inp @ '':'' @ version inp
      \<and> image_out out = imageName inp \<and> tag out = version inp"
      by (simp add: meta_def)
  qed
  define e where "e = ensureDockerEngine pf w"
  define l where
    "l = registryLogin pf (registryUrl inp) (registryUsername inp) (registryPassword inp) (snd e)"
  define c where "c = checkImageExists pf (registryUrl inp) (imageName inp) (version inp) (snd l)"
  define b where "b = bld inp (snd c)"
  define p where "p = push pf (registryUrl inp) (imageName inp) (version inp) (snd b)"
  have probed: "map argv (spawned (snd c)) =
      map argv (spawned w) @
      [ [''--version''],
       [''login'', registryUrl inp, ''-u'', registryUsername inp, ''--password-stdin''],
       [''manifest'', ''inspect'', registryUrl inp @ ''/'' @ imageName inp @ '':'' @ version inp] ]"
    unfolding c_def l_def e_def
    by (simp add: checkImageExists_spawned registryLogin_spawned ensureDockerEngine_spawned)
  have skip: "fst (docker pf bld inp w) = Inr (meta inp True)
      \<and> skipped (meta inp True)
      \<and> map argv (spawned (snd (docker pf bld inp w))) =
          map argv (spawned w) @
          [ [''--version''],
           [''login'', registryUrl inp, ''-u'', registryUsername inp, ''--password-stdin''],
           [''manifest'', ''inspect'', registryUrl inp @ ''/'' @ imageName inp @ '':'' @ version inp] ]"
    if "fst e = Inr ()" "fst l = Inr ()" "fst c"
  proof -
    have "docker pf bld inp w =
        (Inr (meta inp True),
         info (skip_sign @ ''  Image already exists, skipping build and push'') (snd c))"
      using that docker_skip [of pf w inp bld] by (simp add: e_def l_def c_def)
    then show ?thesis
      using probed by (simp add: info_def meta_def)
  qed
  have built: "fst (docker pf bld inp w) = Inr (meta inp False)
      \<and> \<not> skipped (meta inp False)
      \<and> spawned (snd (docker pf bld inp w)) = spawned (snd p)"
    if h: "fst e = Inr ()" "fst l = Inr ()" "\<not> fst c" "fst b = Inr ()" "fst p = Inr ()"
  proof -
    have "docker pf bld inp w =
        rethrow (\<lambda>m. cross_mark @ '' Docker push failed: '' @ m)
          (and_then b
             (\<lambda>_ w4.
                and_then (push pf (registryUrl inp) (imageName inp) (version inp) w4)
                  (\<lambda>_ w5.
                     (Inr (meta inp False),
                      info (check_mark @ '' Docker push process completed successfully'') w5))))"
      using h(1-3) docker_build_and_push [of pf w inp bld] by (simp add: e_def l_def c_def b_def)
    moreover obtain w4 where b: "b = (Inr (), w4)"
      using h(4) by (cases b) auto
    moreover obtain w5 where p: "push pf (registryUrl inp) (imageName inp) (version inp) w4 = (Inr (), w5)"
      using h(5) b by (cases "push pf (registryUrl inp) (imageName inp) (version inp) w4") (auto simp: p_def)
    ultimately show ?thesis
      using b p by (simp add: and_then_def rethrow_def info_def meta_def p_def)
  qed
  show ?thesis
    using fields skip built
    unfolding Let_def e_def l_def c_def b_def p_def by blast
qed

text \<open>
  The two scenarios of the specification: registry \<open>reg.example\<close>, image \<open>app\<close>,
  version \<open>v1\<close>; the image is present in the first and absent in the second.
\<close>

theorem docker_href_and_skipped_witness:
  "fst (docker registry_has_image (classic_builder registry_has_image) demo_request empty_world)
     = Inr \<lparr>image_out = ''app'', tag = ''v1'', href = ''reg.example/app:v1'', skipped = True\<rparr>
   \<and> map argv (spawned (snd (docker registry_has_image (classic_builder registry_has_image)
                                demo_request empty_world)))
     = [ [''--version''], [''login'', ''reg.example'', ''-u'', ''ci'', ''--password-stdin''],
        [''manifest'', ''inspect'', ''reg.example/app:v1''] ]
   \<and> fst (docker registry_lacks_image (classic_builder registry_lacks_image) demo_request empty_world)
     = Inr \<lparr>image_out = ''app'', tag = ''v1'', href = ''reg.example/app:v1'', skipped = False\<rparr>"
proof -
  have present:
    "fst (ensureDockerEngine registry_has_image empty_world) = Inr ()"
    "fst (registryLogin registry_has_image ''reg.example'' ''ci'' ''s3cret''
            (snd (ensureDockerEngine registry_has_image empty_world))) = Inr ()"
    "fst (checkImageExists registry_has_image ''reg.example'' ''app'' ''v1''
            (snd (registryLogin registry_has_image ''reg.example'' ''ci'' ''s3cret''
                    (snd (ensureDockerEngine registry_has_image empty_world)))))"
    by (simp_all add: ensureDockerEngine_def registryLogin_def checkImageExists_def
        checkImageExists_try_def exec_def and_then_def rethrow_def Let_def
        registry_has_image_def runner_def all_succeed_def)
  have absent:
    "fst (ensureDockerEngine registry_lacks_image empty_world) = Inr ()"
    "fst (registryLogin registry_lacks_image ''reg.example'' ''ci'' ''s3cret''
            (snd (ensureDockerEngine registry_lacks_image empty_world))) = Inr ()"
    "\<not> fst (checkImageExists registry_lacks_image ''reg.example'' ''app'' ''v1''
            (snd (registryLogin registry_lacks_image ''reg.example'' ''ci'' ''s3cret''
                    (snd (ensureDockerEngine registry_lacks_image empty_world)))))"
    "fst (classic_builder registry_lacks_image demo_request
            (snd (checkImageExists registry_lacks_image ''reg.example'' ''app'' ''v1''
               (snd (registryLogin registry_lacks_image ''reg.example'' ''ci'' ''s3cret''
                       (snd (ensureDockerEngine registry_lacks_image empty_world))))))) = Inr ()"
    "fst (push registry_lacks_image ''reg.example'' ''app'' ''v1''
            (snd (classic_builder registry_lacks_image demo_request
               (snd (checkImageExists registry_lacks_image ''reg.example'' ''app'' ''v1''
                  (snd (registryLogin registry_lacks_image ''reg.example'' ''ci'' ''s3cret''
                          (snd (ensureDockerEngine registry_lacks_image empty_world))))))))) = Inr ()"
    by (simp_all add: ensureDockerEngine_def registryLogin_def checkImageExists_def
        checkImageExists_try_def classic_builder_def build_def push_def exec_def and_then_def
        rethrow_def Let_def no_options_def info_def
        registry_lacks_image_def runner_def image_absent_def demo_files_def demo_request_def)
  show ?thesis
    using present absent
      docker_href_and_skipped [of registry_has_image "classic_builder registry_has_image"
        demo_request empty_world]
      docker_href_and_skipped [of registry_lacks_image "classic_builder registry_lacks_image"
        demo_request empty_world]
    by (simp add: Let_def meta_def demo_request_def empty_world_def)
qed


section \<open>Input validation\<close>

lemma validate_Some_iff:
  "(\<exists>m. validate i = Some m) =
     (projectPath i = [] \<or> imageName i = [] \<or> version i = [] \<or> registryUrl i = []
      \<or> registryUsername i = [] \<or> registryPassword i = [])"
  by (simp add: validate_def)

lemma validate_messages:
  "validate i = Some m \<Longrightarrow>
     m \<in> set [''project-path is required'', ''image-name is required'', ''version is required'',
               ''registry-url is required'', ''registry-username is required'',
               ''registry-password is required'']"
  by (auto simp: validate_def split: if_splits)

lemma run_invalid:
  "validate (read_input pf) = Some m \<Longrightarrow>
     run pf bld w = setFailed (cross_mark @ '' Action failed: '' @ m) w"
  by (simp add: run_def run_try_def)

text \<open>
  Claim C2.  When one of the six required fields of the input record that \<open>run\<close> reads
  is empty, the run ends with the failure report of the validation (one of the six
  \<open>... is required\<close> messages) and nothing else: no subprocess is spawned, nothing is
  logged, no output is written.
\<close>

theorem run_rejects_empty_required_field:
  assumes "projectPath (read_input pf) = [] \<or> imageName (read_input pf) = []
           \<or> version (read_input pf) = [] \<or> registryUrl (read_input pf) = []
           \<or> registryUsername (read_input pf) = [] \<or> registryPassword (read_input pf) = []"
  shows "\<exists>m. m \<in> set [''project-path is required'', ''image-name is required'',
                        ''version is required'', ''registry-url is required'',
                        ''registry-username is required'', ''registry-password is required'']
             \<and> run pf bld w = w\<lparr>failed := failed w @ [cross_mark @ '' Action failed: '' @ m]\<rparr>
             \<and> spawned (run pf bld w) = spawned w"
proof -
  obtain m where m: "validate (read_input pf) = Some m"
    using assms validate_Some_iff [of "read_input pf"] by blast
  then have "run pf bld w = w\<lparr>failed := failed w @ [cross_mark @ '' Action failed: '' @ m]\<rparr>"
    by (simp add: run_invalid setFailed_def)
  with m validate_messages [OF m] show ?thesis
    by auto
qed

theorem run_rejects_empty_required_field_witness:
  "version (read_input version_missing) = []
   \<and> spawned (run version_missing (classic_builder version_missing) empty_world) = []
   \<and> failed (run version_missing (classic_builder version_missing) empty_world)
       = [cross_mark @ '' Action failed: version is required'']"
proof -
  have v: "version (read_input version_missing) = []"
    by (simp add: read_input_def version_missing_def runner_def js_or_def env_get_def)
  have other:
    "projectPath (read_input version_missing) \<noteq> []" "imageName (read_input version_missing) \<noteq> []"
    by (simp_all add: read_input_def version_missing_def runner_def js_or_def env_get_def)
  from v have "validate (read_input version_missing) = Some ''version is required''"
    using other by (simp add: validate_def)
  moreover obtain m where
    "run version_missing (classic_builder version_missing) empty_world
       = empty_world\<lparr>failed := failed empty_world @ [cross_mark @ '' Action failed: '' @ m]\<rparr>"
    "spawned (run version_missing (classic_builder version_missing) empty_world) = spawned empty_world"
    using run_rejects_empty_required_field
      [of version_missing "classic_builder version_missing" empty_world] v
    by blast
  ultimately show ?thesis
    using v by (simp add: run_invalid setFailed_def empty_world_def)
qed


section \<open>The existence prober\<close>

text \<open>
  Claim C3.  \<open>checkImageExists\<close> returns a boolean for every input and every answer of
  the outside world: it spawns the manifest inspection and returns \<open>true\<close> exactly when
  that exits with code zero; a non-zero exit and a failure to execute both give \<open>false\<close>,
  and in each case exactly one diagnostic line is logged.
\<close>

theorem checkImageExists_never_raises:
  "(let ref = url @ ''/'' @ img @ '':'' @ ver;
        inv = \<lparr>command = ''docker'', argv = [''manifest'', ''inspect'', ref],
               options = no_options\<lparr>ignoreReturnCode := True, silent := True\<rparr>\<rparr>;
        w1 = w\<lparr>spawned := spawned w @ [inv]\<rparr>
    in checkImageExists pf url img ver w =
         (case respond pf (spawned w) inv of
            Exited c \<Rightarrow>
              (c = 0,
               info (package_sign @ '' Image '' @ ref @ '' ''
                     @ (if c = 0 then ''exists'' else ''does not exist'')) w1)
          | SpawnError e \<Rightarrow>
              (False, info (cross_mark @ '' Error checking image existence: '' @ error_text e) w1))
       \<and> fst (checkImageExists pf url img ver w) = (respond pf (spawned w) inv = Exited 0)
       \<and> (\<exists>m. logged (snd (checkImageExists pf url img ver w)) = logged w @ [Info m]))"
  by (simp add: checkImageExists_def checkImageExists_try_def exec_def and_then_def info_def
      Let_def no_options_def split: proc_outcome.splits)


section \<open>The image builder\<close>

subsection \<open>The Dockerfile check\<close>

lemma build_missing_dockerfile:
  "\<not> existsSync pf (path_join pf pp df) \<Longrightarrow>
     build pf pp df img ver w =
       (Inl (cross_mark @ '' Failed to build: '' @
             error_text (cross_mark @ '' Dockerfile not found at: '' @ path_join pf pp df)), w)"
  by (simp add: build_def rethrow_def Let_def)

lemma build_buildx_missing_dockerfile:
  "\<not> existsSync pf (path_resolve pf df) \<Longrightarrow>
     build_buildx pf pp df img ver url a pl w =
       (Inl (cross_mark @ '' Failed to build: '' @
             error_text (cross_mark @ '' Dockerfile not found at: '' @ path_resolve pf df)), w)"
  by (simp add: build_buildx_def rethrow_def Let_def)

text \<open>
  Claim C4.  Both builders fail on a missing Dockerfile before spawning anything, as the
  two lemmas above say, but they do not look for the same file.  The classic builder
  checks the project path joined with the Dockerfile name.  The builder with the pull
  step checks \<open>resolve(dockerfileName)\<close>, where the project path has no part.  With
  project path \<open>app\<close>, Dockerfile name \<open>Dockerfile\<close> and a file system that holds
  \<open>/work/Dockerfile\<close> but not \<open>app/Dockerfile\<close>, the classic builder stops with the
  Dockerfile-missing error and no subprocess, while the builder with the pull step
  spawns the pull and the build.
\<close>

theorem build_buildx_ignores_project_path:
  "\<not> existsSync dockerfile_in_cwd_only (path_join dockerfile_in_cwd_only ''app'' ''Dockerfile'')
   \<and> build dockerfile_in_cwd_only ''app'' ''Dockerfile'' ''app'' ''v1'' empty_world =
       (Inl (cross_mark @ '' Failed to build: Error: '' @ cross_mark
             @ '' Dockerfile not found at: app/Dockerfile''), empty_world)
   \<and> fst (build_buildx dockerfile_in_cwd_only ''app'' ''Dockerfile'' ''app'' ''v1'' ''reg.example''
             ''--no-cache'' True empty_world) = Inr ()
   \<and> map argv (spawned (snd (build_buildx dockerfile_in_cwd_only ''app'' ''Dockerfile'' ''app'' ''v1''
                                ''reg.example'' ''--no-cache'' True empty_world))) =
       [ [''pull'', ''reg.example/app:latest''],
        [''buildx'', ''build'', ''-t'', ''reg.example/app:v1'', ''-f'', ''/work/Dockerfile'', ''app'',
         ''--no-cache'', ''--push''] ]"
  by (simp add: build_def build_buildx_def pull_latest_def build_argv_def js_split_ws_def js_trim_def
      strip_code_def ws_codes_def exec_def and_then_def rethrow_def error_text_def Let_def no_options_def info_def
      dockerfile_in_cwd_only_def runner_def image_absent_def empty_world_def)

subsection \<open>The best-effort pull\<close>

text \<open>
  Claim C5.  In the builder with the pull step, called with \<open>pullLatest = true\<close> on an
  existing Dockerfile: when the pull of \<open>registry_url/image_name:latest\<close> fails in any
  way (it cannot be started, or exits with a code other than zero), a warning is
  logged, the build invocation is spawned next, and the builder succeeds exactly when
  that build invocation exits with code zero.
\<close>

theorem build_buildx_survives_pull_failure:
  assumes "existsSync pf (path_resolve pf df)"
    and "respond pf (spawned w)
           \<lparr>command = ''docker'', argv = [''pull'', url @ ''/'' @ img @ '':latest''],
            options = no_options\<rparr> \<noteq> Exited 0"
  shows "let pull = \<lparr>command = ''docker'', argv = [''pull'', url @ ''/'' @ img @ '':latest''],
                    options = no_options\<rparr>;
             bld = \<lparr>command = ''docker'',
                    argv = build_argv url (img @ '':'' @ ver) (path_resolve pf df) pp a,
                    options = no_options\<lparr>env := Some (process_env pf)\<rparr>\<rparr>;
             r = build_buildx pf pp df img ver url a True w
         in spawned (snd r) = spawned w @ [pull, bld]
            \<and> (\<exists>e. take (Suc (length (logged w))) (logged (snd r)) =
                       logged w @ [Warning (warning_sign @ '' Failed to pull '' @ url @ ''/'' @ img
                                            @ '':latest: '' @ error_text e)])
            \<and> (fst r = Inr ()) = (respond pf (spawned w @ [pull]) bld = Exited 0)"
  using assms
  by (auto simp: build_buildx_def pull_latest_def exec_def and_then_def rethrow_def Let_def
      no_options_def info_def warning_def split: proc_outcome.splits)

text \<open>The pull exits with code 1, the build with code 0: the builder succeeds.\<close>

theorem build_buildx_survives_pull_failure_witness:
  "existsSync pull_fails (path_resolve pull_fails ''Dockerfile'')
   \<and> respond pull_fails []
        \<lparr>command = ''docker'', argv = [''pull'', ''reg.example/app:latest''], options = no_options\<rparr>
       = Exited 1
   \<and> fst (build_buildx pull_fails ''app'' ''Dockerfile'' ''app'' ''v1'' ''reg.example''
             ''--no-cache'' True empty_world) = Inr ()
   \<and> map argv (spawned (snd (build_buildx pull_fails ''app'' ''Dockerfile'' ''app'' ''v1''
                                ''reg.example'' ''--no-cache'' True empty_world))) =
       [ [''pull'', ''reg.example/app:latest''],
        [''buildx'', ''build'', ''-t'', ''reg.example/app:v1'', ''-f'', ''/work/Dockerfile'', ''app'',
         ''--no-cache'', ''--push''] ]"
proof -
  have dockerfile: "existsSync pull_fails (path_resolve pull_fails ''Dockerfile'')"
    by (simp add: pull_fails_def runner_def demo_files_def)
  have pull: "respond pull_fails (spawned empty_world)
        \<lparr>command = ''docker'', argv = [''pull'', ''reg.example'' @ ''/'' @ ''app'' @ '':latest''],
         options = no_options\<rparr> \<noteq> Exited 0"
    by (simp add: pull_fails_def runner_def pull_failing_def)
  have tokens: "build_argv ''reg.example'' ''app:v1''
        (path_resolve pull_fails ''Dockerfile'') ''app'' ''--no-cache'' =
      [''buildx'', ''build'', ''-t'', ''reg.example/app:v1'', ''-f'', ''/work/Dockerfile'', ''app'',
       ''--no-cache'', ''--push'']"
    by (simp add: build_argv_def js_split_ws_def js_trim_def strip_code_def ws_codes_def
        pull_fails_def runner_def)
  have from_theorem:
    "spawned (snd (build_buildx pull_fails ''app'' ''Dockerfile'' ''app'' ''v1'' ''reg.example''
                     ''--no-cache'' True empty_world)) =
       spawned empty_world @
       [\<lparr>command = ''docker'', argv = [''pull'', ''reg.example'' @ ''/'' @ ''app'' @ '':latest''],
         options = no_options\<rparr>,
        \<lparr>command = ''docker'',
         argv = build_argv ''reg.example'' (''app'' @ '':'' @ ''v1'')
                  (path_resolve pull_fails ''Dockerfile'') ''app'' ''--no-cache'',
         options = no_options\<lparr>env := Some (process_env pull_fails)\<rparr>\<rparr>]"
    "(fst (build_buildx pull_fails ''app'' ''Dockerfile'' ''app'' ''v1'' ''reg.example''
             ''--no-cache'' True empty_world) = Inr ()) =
       (respond pull_fails
          (spawned empty_world @
           [\<lparr>command = ''docker'', argv = [''pull'', ''reg.example'' @ ''/'' @ ''app'' @ '':latest''],
             options = no_options\<rparr>])
          \<lparr>command = ''docker'',
           argv = build_argv ''reg.example'' (''app'' @ '':'' @ ''v1'')
                    (path_resolve pull_fails ''Dockerfile'') ''app'' ''--no-cache'',
           options = no_options\<lparr>env := Some (process_env pull_fails)\<rparr>\<rparr> = Exited 0)"
    using build_buildx_survives_pull_failure [OF dockerfile pull, where ver = "''v1''"
        and pp = "''app''" and a = "''--no-cache''"]
    by (simp_all only: Let_def)
  have built: "respond pull_fails
          (spawned empty_world @
           [\<lparr>command = ''docker'', argv = [''pull'', ''reg.example'' @ ''/'' @ ''app'' @ '':latest''],
             options = no_options\<rparr>])
          \<lparr>command = ''docker'',
           argv = build_argv ''reg.example'' (''app'' @ '':'' @ ''v1'')
                    (path_resolve pull_fails ''Dockerfile'') ''app'' ''--no-cache'',
           options = no_options\<lparr>env := Some (process_env pull_fails)\<rparr>\<rparr> = Exited 0"
    by (simp add: tokens, simp add: pull_fails_def runner_def pull_failing_def)
  have exit1: "respond pull_fails []
        \<lparr>command = ''docker'', argv = [''pull'', ''reg.example/app:latest''], options = no_options\<rparr>
       = Exited 1"
    by (simp add: pull_fails_def runner_def pull_failing_def)
  show ?thesis
    using dockerfile exit1 from_theorem built
    by (simp add: tokens empty_world_def)
qed

subsection \<open>The extra build arguments\<close>

lemma build_argv_places_tokens:
  "build_argv url full path pp a =
     [''buildx'', ''build'', ''-t'', url @ ''/'' @ full, ''-f'', path, pp]
     @ js_split_ws (js_trim a) @ [''--push'']"
  by (simp add: build_argv_def)

text \<open>
  A string that \<open>trim\<close> empties gives the single empty token.  A no-break space
  (U+00A0) is white space as much as a blank.
\<close>

lemma blank_args_one_empty_token:
  "js_trim a = [] \<Longrightarrow> js_split_ws (js_trim a) = [ [] ]"
  by (simp add: js_split_ws_def)

lemma no_break_space_is_blank:
  "js_trim [CHR 0xC2, CHR 0xA0, CHR 0x20] = []
   \<and> js_split_ws (js_trim ([CHR 0xC2, CHR 0xA0] @ ''-q'' @ [CHR 0xE2, CHR 0x80, CHR 0xA8] @ ''-t''))
       = [''-q'', ''-t'']"
  by (simp add: js_split_ws_def js_trim_def strip_code_def ws_codes_def)

text \<open>
  Claim C7.  The tokens of \<open>args.trim().split(/\s+/)\<close> are put into the build invocation
  as they are, between the project path and \<open>--push\<close>.  For the empty string the split
  returns one token, the empty string, not zero tokens: the argument list of the build
  invocation then has nine entries, with an empty argument after the project path.  The
  same holds for a string of white space only.
\<close>

theorem empty_args_give_one_empty_token:
  "js_split_ws (js_trim []) = [ [] ]
   \<and> js_split_ws (js_trim ''   '') = [ [] ]
   \<and> build_argv ''reg.example'' ''app:v1'' ''/work/Dockerfile'' ''app'' [] =
       [''buildx'', ''build'', ''-t'', ''reg.example/app:v1'', ''-f'', ''/work/Dockerfile'', ''app'',
        [], ''--push'']
   \<and> js_split_ws (js_trim '' --build-arg  A=1 --no-cache '') =
       [''--build-arg'', ''A=1'', ''--no-cache'']"
  by (simp add: build_argv_def js_split_ws_def js_trim_def strip_code_def ws_codes_def)


section \<open>The publisher\<close>

lemma push_result:
  "(fst (push pf url img ver w) = Inr ()) =
     (respond pf (spawned w)
        \<lparr>command = ''docker'', argv = [''tag'', img @ '':'' @ ver, url @ ''/'' @ img @ '':'' @ ver],
         options = no_options\<rparr> = Exited 0
      \<and> respond pf
          (spawned w @
           [\<lparr>command = ''docker'', argv = [''tag'', img @ '':'' @ ver, url @ ''/'' @ img @ '':'' @ ver],
             options = no_options\<rparr>])
          \<lparr>command = ''docker'', argv = [''push'', url @ ''/'' @ img @ '':'' @ ver],
           options = no_options\<rparr> = Exited 0
      \<and> respond pf
          (spawned w @
           [\<lparr>command = ''docker'', argv = [''tag'', img @ '':'' @ ver, url @ ''/'' @ img @ '':'' @ ver],
             options = no_options\<rparr>,
            \<lparr>command = ''docker'', argv = [''push'', url @ ''/'' @ img @ '':'' @ ver],
             options = no_options\<rparr>])
          \<lparr>command = ''docker'', argv = [''tag'', img @ '':'' @ ver, url @ ''/'' @ img @ '':latest''],
           options = no_options\<rparr> = Exited 0
      \<and> respond pf
          (spawned w @
           [\<lparr>command = ''docker'', argv = [''tag'', img @ '':'' @ ver, url @ ''/'' @ img @ '':'' @ ver],
             options = no_options\<rparr>,
            \<lparr>command = ''docker'', argv = [''push'', url @ ''/'' @ img @ '':'' @ ver],
             options = no_options\<rparr>,
            \<lparr>command = ''docker'', argv = [''tag'', img @ '':'' @ ver, url @ ''/'' @ img @ '':latest''],
             options = no_options\<rparr>])
          \<lparr>command = ''docker'', argv = [''push'', url @ ''/'' @ img @ '':latest''],
           options = no_options\<rparr> = Exited 0)"
  by (auto simp: push_def exec_def and_then_def rethrow_def Let_def no_options_def info_def
      split: proc_outcome.splits)

lemma push_spawned_success:
  "fst (push pf url img ver w) = Inr () \<Longrightarrow>
     spawned (snd (push pf url img ver w)) =
       spawned w @
       [\<lparr>command = ''docker'', argv = [''tag'', img @ '':'' @ ver, url @ ''/'' @ img @ '':'' @ ver],
         options = no_options\<rparr>,
        \<lparr>command = ''docker'', argv = [''push'', url @ ''/'' @ img @ '':'' @ ver],
         options = no_options\<rparr>,
        \<lparr>command = ''docker'', argv = [''tag'', img @ '':'' @ ver, url @ ''/'' @ img @ '':latest''],
         options = no_options\<rparr>,
        \<lparr>command = ''docker'', argv = [''push'', url @ ''/'' @ img @ '':latest''],
         options = no_options\<rparr>]"
  by (auto simp: push_def exec_def and_then_def rethrow_def Let_def no_options_def info_def
      split: proc_outcome.splits if_splits)

lemma push_spawned_order:
  "prefix (spawned (snd (push pf url img ver w)))
     (spawned w @
       [\<lparr>command = ''docker'', argv = [''tag'', img @ '':'' @ ver, url @ ''/'' @ img @ '':'' @ ver],
         options = no_options\<rparr>,
        \<lparr>command = ''docker'', argv = [''push'', url @ ''/'' @ img @ '':'' @ ver],
         options = no_options\<rparr>,
        \<lparr>command = ''docker'', argv = [''tag'', img @ '':'' @ ver, url @ ''/'' @ img @ '':latest''],
         options = no_options\<rparr>,
        \<lparr>command = ''docker'', argv = [''push'', url @ ''/'' @ img @ '':latest''],
         options = no_options\<rparr>])"
  by (auto simp: push_def exec_def and_then_def rethrow_def Let_def no_options_def info_def
      split: proc_outcome.splits if_splits)

lemma push_spawns_tag_first:
  "prefix
     (spawned w @
       [\<lparr>command = ''docker'', argv = [''tag'', img @ '':'' @ ver, url @ ''/'' @ img @ '':'' @ ver],
         options = no_options\<rparr>])
     (spawned (snd (push pf url img ver w)))"
  by (auto simp: push_def exec_def and_then_def rethrow_def Let_def no_options_def info_def
      split: proc_outcome.splits if_splits)

lemma push_failure_message:
  "fst (push pf url img ver w) = Inl m \<Longrightarrow>
     \<exists>e. m = cross_mark @ '' Failed to push '' @ url @ ''/'' @ img @ '':'' @ ver @ '': '' @ error_text e"
  by (auto simp: push_def exec_def and_then_def rethrow_def Let_def no_options_def info_def
      split: proc_outcome.splits if_splits)

lemma push_outcome:
  "(let localImage = img @ '':'' @ ver;
        remote = url @ ''/'' @ img @ '':'' @ ver;
        latest = url @ ''/'' @ img @ '':latest'';
        t1 = \<lparr>command = ''docker'', argv = [''tag'', localImage, remote], options = no_options\<rparr>;
        p1 = \<lparr>command = ''docker'', argv = [''push'', remote], options = no_options\<rparr>;
        t2 = \<lparr>command = ''docker'', argv = [''tag'', localImage, latest], options = no_options\<rparr>;
        p2 = \<lparr>command = ''docker'', argv = [''push'', latest], options = no_options\<rparr>;
        h = spawned w;
        o1 = respond pf h t1;
        o2 = respond pf (h @ [t1]) p1;
        o3 = respond pf (h @ [t1, p1]) t2;
        o4 = respond pf (h @ [t1, p1, t2]) p2;
        failure = (\<lambda>e. Inl (cross_mark @ '' Failed to push '' @ remote @ '': '' @ error_text e));
        pushed = Info (check_mark @ '' Successfully pushed: '' @ remote);
        pushed_latest = Info (check_mark @ '' Successfully pushed as latest: '' @ latest);
        r = push pf url img ver w
    in r =
         (case rejection ''docker'' o1 of
            Some e \<Rightarrow> (failure e, w\<lparr>spawned := h @ [t1]\<rparr>)
          | None \<Rightarrow>
         (case rejection ''docker'' o2 of
            Some e \<Rightarrow> (failure e, w\<lparr>spawned := h @ [t1, p1]\<rparr>)
          | None \<Rightarrow>
         (case rejection ''docker'' o3 of
            Some e \<Rightarrow>
              (failure e, w\<lparr>spawned := h @ [t1, p1, t2], logged := logged w @ [pushed]\<rparr>)
          | None \<Rightarrow>
         (case rejection ''docker'' o4 of
            Some e \<Rightarrow>
              (failure e, w\<lparr>spawned := h @ [t1, p1, t2, p2], logged := logged w @ [pushed]\<rparr>)
          | None \<Rightarrow>
              (Inr (),
               w\<lparr>spawned := h @ [t1, p1, t2, p2],
                 logged := logged w @ [pushed, pushed_latest]\<rparr>))))))"
  by (simp add: push_def exec_def and_then_def rethrow_def Let_def info_def rejection_def
      no_options_def split: proc_outcome.splits)

lemma docker_push_failure:
  assumes "fst (ensureDockerEngine pf w) = Inr ()"
    and "fst (registryLogin pf (registryUrl inp) (registryUsername inp) (registryPassword inp)
               (snd (ensureDockerEngine pf w))) = Inr ()"
    and "\<not> fst (checkImageExists pf (registryUrl inp) (imageName inp) (version inp)
               (snd (registryLogin pf (registryUrl inp) (registryUsername inp) (registryPassword inp)
                      (snd (ensureDockerEngine pf w)))))"
    and "fst (bld inp
               (snd (checkImageExists pf (registryUrl inp) (imageName inp) (version inp)
                  (snd (registryLogin pf (registryUrl inp) (registryUsername inp)
                          (registryPassword inp) (snd (ensureDockerEngine pf w))))))) = Inr ()"
    and "fst (push pf (registryUrl inp) (imageName inp) (version inp)
               (snd (bld inp
                  (snd (checkImageExists pf (registryUrl inp) (imageName inp) (version inp)
                     (snd (registryLogin pf (registryUrl inp) (registryUsername inp)
                             (registryPassword inp) (snd (ensureDockerEngine pf w))))))))) = Inl m"
  shows "fst (docker pf bld inp w) = Inl (cross_mark @ '' Docker push failed: '' @ m)"
  using assms(4,5)
  by (simp add: docker_build_and_push [OF assms(1-3)] and_then_Inr and_then_Inl rethrow_def)

text \<open>
  Claim C9, as amended.  \<open>push\<close> tags and pushes the versioned reference and then tags
  and pushes \<open>latest\<close>, in this order, and succeeds exactly when all four invocations exit
  with code zero.  Its result and its effects are fixed by the answers to the four
  invocations: the first invocation that is rejected is the last one spawned, and the
  error is \<open>Failed to push\<close>, the versioned reference \<open>registry/image:version\<close> (also
  when the tag or push of \<open>latest\<close> was rejected) and the error of that rejection;
  \<open>docker\<close> then fails with that message behind its own prefix.
\<close>

theorem push_versioned_then_latest:
  "(let localImage = img @ '':'' @ ver;
        remote = url @ ''/'' @ img @ '':'' @ ver;
        latest = url @ ''/'' @ img @ '':latest'';
        t1 = \<lparr>command = ''docker'', argv = [''tag'', localImage, remote], options = no_options\<rparr>;
        p1 = \<lparr>command = ''docker'', argv = [''push'', remote], options = no_options\<rparr>;
        t2 = \<lparr>command = ''docker'', argv = [''tag'', localImage, latest], options = no_options\<rparr>;
        p2 = \<lparr>command = ''docker'', argv = [''push'', latest], options = no_options\<rparr>;
        h = spawned w;
        o1 = respond pf h t1;
        o2 = respond pf (h @ [t1]) p1;
        o3 = respond pf (h @ [t1, p1]) t2;
        o4 = respond pf (h @ [t1, p1, t2]) p2;
        failure = (\<lambda>e. Inl (cross_mark @ '' Failed to push '' @ remote @ '': '' @ error_text e));
        pushed = Info (check_mark @ '' Successfully pushed: '' @ remote);
        pushed_latest = Info (check_mark @ '' Successfully pushed as latest: '' @ latest);
        r = push pf url img ver w
    in (fst r = Inr ()) =
         (o1 = Exited 0 \<and> o2 = Exited 0 \<and> o3 = Exited 0 \<and> o4 = Exited 0)
       \<and> r =
         (case rejection ''docker'' o1 of
            Some e \<Rightarrow> (failure e, w\<lparr>spawned := h @ [t1]\<rparr>)
          | None \<Rightarrow>
         (case rejection ''docker'' o2 of
            Some e \<Rightarrow> (failure e, w\<lparr>spawned := h @ [t1, p1]\<rparr>)
          | None \<Rightarrow>
         (case rejection ''docker'' o3 of
            Some e \<Rightarrow>
              (failure e, w\<lparr>spawned := h @ [t1, p1, t2], logged := logged w @ [pushed]\<rparr>)
          | None \<Rightarrow>
         (case rejection ''docker'' o4 of
            Some e \<Rightarrow>
              (failure e, w\<lparr>spawned := h @ [t1, p1, t2, p2], logged := logged w @ [pushed]\<rparr>)
          | None \<Rightarrow>
              (Inr (),
               w\<lparr>spawned := h @ [t1, p1, t2, p2],
                 logged := logged w @ [pushed, pushed_latest]\<rparr>)))))
       \<and> prefix (h @ [t1]) (spawned (snd r))
       \<and> prefix (spawned (snd r)) (h @ [t1, p1, t2, p2])
       \<and> (fst r = Inr () \<longrightarrow> spawned (snd r) = h @ [t1, p1, t2, p2])
       \<and> (\<forall>m. fst r = Inl m \<longrightarrow>
              (\<exists>e. m = cross_mark @ '' Failed to push '' @ remote @ '': '' @ error_text e)))
   \<and> (let e = ensureDockerEngine pf w0;
           l = registryLogin pf (registryUrl inp) (registryUsername inp) (registryPassword inp) (snd e);
           c = checkImageExists pf (registryUrl inp) (imageName inp) (version inp) (snd l);
           b = bld inp (snd c);
           p = push pf (registryUrl inp) (imageName inp) (version inp) (snd b)
       in \<forall>m. fst e = Inr () \<and> fst l = Inr () \<and> \<not> fst c \<and> fst b = Inr () \<and> fst p = Inl m \<longrightarrow>
            fst (docker pf bld inp w0) = Inl (cross_mark @ '' Docker push failed: '' @ m))"
proof -
  have abort: "fst (docker pf bld inp w0) = Inl (cross_mark @ '' Docker push failed: '' @ m)"
    if "fst (ensureDockerEngine pf w0) = Inr ()"
      and "fst (registryLogin pf (registryUrl inp) (registryUsername inp) (registryPassword inp)
                 (snd (ensureDockerEngine pf w0))) = Inr ()"
      and "\<not> fst (checkImageExists pf (registryUrl inp) (imageName inp) (version inp)
                 (snd (registryLogin pf (registryUrl inp) (registryUsername inp) (registryPassword inp)
                        (snd (ensureDockerEngine pf w0)))))"
      and "fst (bld inp
                 (snd (checkImageExists pf (registryUrl inp) (imageName inp) (version inp)
                    (snd (registryLogin pf (registryUrl inp) (registryUsername inp)
                            (registryPassword inp) (snd (ensureDockerEngine pf w0))))))) = Inr ()"
      and "fst (push pf (registryUrl inp) (imageName inp) (version inp)
                 (snd (bld inp
                    (snd (checkImageExists pf (registryUrl inp) (imageName inp) (version inp)
                       (snd (registryLogin pf (registryUrl inp) (registryUsername inp)
                               (registryPassword inp) (snd (ensureDockerEngine pf w0))))))))) = Inl m"
    for m
    using that by (rule docker_push_failure)
  show ?thesis
    unfolding Let_def
    apply (intro conjI allI impI)
          apply (rule push_result)
         apply (rule push_outcome [unfolded Let_def])
        apply (rule push_spawns_tag_first)
       apply (rule push_spawned_order)
      apply (erule push_spawned_success)
     apply (drule push_failure_message, simp)
    apply (elim conjE)
    apply (rule abort; assumption)
    done
qed

text \<open>
  With the image absent and everything succeeding, the four invocations are spawned in
  order.  With the push of \<open>latest\<close> exiting with code 1, \<open>push\<close> fails and \<open>docker\<close> fails.
\<close>

theorem push_versioned_then_latest_witness:
  "fst (push registry_lacks_image ''reg.example'' ''app'' ''v1'' empty_world) = Inr ()
   \<and> map argv (spawned (snd (push registry_lacks_image ''reg.example'' ''app'' ''v1'' empty_world))) =
       [ [''tag'', ''app:v1'', ''reg.example/app:v1''], [''push'', ''reg.example/app:v1''],
        [''tag'', ''app:v1'', ''reg.example/app:latest''], [''push'', ''reg.example/app:latest''] ]
   \<and> fst (push latest_push_fails ''reg.example'' ''app'' ''v1'' empty_world) =
       Inl (cross_mark @ '' Failed to push reg.example/app:v1: Error: The process ''
            @ [CHR 0x27] @ ''docker'' @ [CHR 0x27] @ '' failed with exit code 1'')
   \<and> map argv (spawned (snd (push latest_push_fails ''reg.example'' ''app'' ''v1'' empty_world))) =
       [ [''tag'', ''app:v1'', ''reg.example/app:v1''], [''push'', ''reg.example/app:v1''],
        [''tag'', ''app:v1'', ''reg.example/app:latest''], [''push'', ''reg.example/app:latest''] ]
   \<and> (\<exists>m. fst (docker latest_push_fails (classic_builder latest_push_fails) demo_request empty_world)
            = Inl m)"
proof -
  note good = push_versioned_then_latest [where img = "''app''" and ver = "''v1''"
      and url = "''reg.example''" and w = empty_world and pf = registry_lacks_image
      and ?w0.0 = empty_world and inp = demo_request and bld = "classic_builder registry_lacks_image",
      unfolded Let_def, THEN conjunct1, THEN conjunct2, THEN conjunct1]
  note bad = push_versioned_then_latest [where img = "''app''" and ver = "''v1''"
      and url = "''reg.example''" and w = empty_world and pf = latest_push_fails
      and ?w0.0 = empty_world and inp = demo_request and bld = "classic_builder latest_push_fails",
      unfolded Let_def]
  have ok: "push registry_lacks_image ''reg.example'' ''app'' ''v1'' empty_world =
      (Inr (),
       empty_world
       \<lparr>spawned :=
          [\<lparr>command = ''docker'', argv = [''tag'', ''app:v1'', ''reg.example/app:v1''],
            options = no_options\<rparr>,
           \<lparr>command = ''docker'', argv = [''push'', ''reg.example/app:v1''], options = no_options\<rparr>,
           \<lparr>command = ''docker'', argv = [''tag'', ''app:v1'', ''reg.example/app:latest''],
            options = no_options\<rparr>,
           \<lparr>command = ''docker'', argv = [''push'', ''reg.example/app:latest''],
            options = no_options\<rparr>],
        logged :=
          [Info (check_mark @ '' Successfully pushed: reg.example/app:v1''),
           Info (check_mark @ '' Successfully pushed as latest: reg.example/app:latest'')]\<rparr>)"
    using good
    by (simp add: rejection_def registry_lacks_image_def runner_def image_absent_def empty_world_def)
  have ko: "push latest_push_fails ''reg.example'' ''app'' ''v1'' empty_world =
      (Inl (cross_mark @ '' Failed to push reg.example/app:v1: Error: The process ''
            @ [CHR 0x27] @ ''docker'' @ [CHR 0x27] @ '' failed with exit code 1''),
       empty_world
       \<lparr>spawned :=
          [\<lparr>command = ''docker'', argv = [''tag'', ''app:v1'', ''reg.example/app:v1''],
            options = no_options\<rparr>,
           \<lparr>command = ''docker'', argv = [''push'', ''reg.example/app:v1''], options = no_options\<rparr>,
           \<lparr>command = ''docker'', argv = [''tag'', ''app:v1'', ''reg.example/app:latest''],
            options = no_options\<rparr>,
           \<lparr>command = ''docker'', argv = [''push'', ''reg.example/app:latest''],
            options = no_options\<rparr>],
        logged := [Info (check_mark @ '' Successfully pushed: reg.example/app:v1'')]\<rparr>)"
    using bad [THEN conjunct1, THEN conjunct2, THEN conjunct1]
    by (simp add: rejection_def exit_failure_def show_int_1 error_text_def
        latest_push_fails_def runner_def latest_push_failing_def empty_world_def)
  have before:
    "fst (ensureDockerEngine latest_push_fails empty_world) = Inr ()"
    "fst (registryLogin latest_push_fails ''reg.example'' ''ci'' ''s3cret''
            (snd (ensureDockerEngine latest_push_fails empty_world))) = Inr ()"
    "\<not> fst (checkImageExists latest_push_fails ''reg.example'' ''app'' ''v1''
            (snd (registryLogin latest_push_fails ''reg.example'' ''ci'' ''s3cret''
                    (snd (ensureDockerEngine latest_push_fails empty_world)))))"
    "fst (classic_builder latest_push_fails demo_request
            (snd (checkImageExists latest_push_fails ''reg.example'' ''app'' ''v1''
               (snd (registryLogin latest_push_fails ''reg.example'' ''ci'' ''s3cret''
                       (snd (ensureDockerEngine latest_push_fails empty_world))))))) = Inr ()"
    by (simp_all add: ensureDockerEngine_def registryLogin_def checkImageExists_def
        checkImageExists_try_def classic_builder_def build_def exec_def and_then_def
        rethrow_def Let_def no_options_def info_def
        latest_push_fails_def runner_def latest_push_failing_def demo_files_def demo_request_def)
  obtain m where failing: "fst (push latest_push_fails ''reg.example'' ''app'' ''v1''
      (snd (classic_builder latest_push_fails demo_request
         (snd (checkImageExists latest_push_fails ''reg.example'' ''app'' ''v1''
            (snd (registryLogin latest_push_fails ''reg.example'' ''ci'' ''s3cret''
                    (snd (ensureDockerEngine latest_push_fails empty_world))))))))) = Inl m"
    by (simp add: push_def exec_def and_then_def rethrow_def Let_def no_options_def info_def
        latest_push_fails_def runner_def latest_push_failing_def)
  have fields: "registryUrl demo_request = ''reg.example''" "imageName demo_request = ''app''"
    "version demo_request = ''v1''" "registryUsername demo_request = ''ci''"
    "registryPassword demo_request = ''s3cret''"
    by (simp_all add: demo_request_def)
  have "fst (docker latest_push_fails (classic_builder latest_push_fails) demo_request empty_world)
      = Inl (cross_mark @ '' Docker push failed: '' @ m)"
    using bad [THEN conjunct2, rule_format, of m] before failing
    by (simp add: fields)
  then show ?thesis
    by (simp add: ok ko)
qed

text \<open>
  Claim C9 as stated fails where it says that the failure names the reference that
  failed: when the push of \<open>reg.example/app:latest\<close> exits with code 1, after the three
  invocations before it succeeded, the message is about \<open>reg.example/app:v1\<close> and the
  reference \<open>reg.example/app:latest\<close> does not occur in it.
\<close>

theorem push_failure_names_failed_reference_counterexample:
  "push latest_push_fails ''reg.example'' ''app'' ''v1'' empty_world =
     (Inl (cross_mark @ '' Failed to push reg.example/app:v1: Error: The process ''
           @ [CHR 0x27] @ ''docker'' @ [CHR 0x27] @ '' failed with exit code 1''),
      \<lparr>spawned =
         [\<lparr>command = ''docker'', argv = [''tag'', ''app:v1'', ''reg.example/app:v1''],
           options = no_options\<rparr>,
          \<lparr>command = ''docker'', argv = [''push'', ''reg.example/app:v1''], options = no_options\<rparr>,
          \<lparr>command = ''docker'', argv = [''tag'', ''app:v1'', ''reg.example/app:latest''],
           options = no_options\<rparr>,
          \<lparr>command = ''docker'', argv = [''push'', ''reg.example/app:latest''],
           options = no_options\<rparr>],
       logged = [Info (check_mark @ '' Successfully pushed: reg.example/app:v1'')],
       outputs = [], appended = [], failed = []\<rparr>)
   \<and> \<not> sublist ''reg.example/app:latest''
         (cross_mark @ '' Failed to push reg.example/app:v1: Error: The process ''
          @ [CHR 0x27] @ ''docker'' @ [CHR 0x27] @ '' failed with exit code 1'')"
proof -
  have "\<not> sublist ''reg.example/app:latest''
         (cross_mark @ '' Failed to push reg.example/app:v1: Error: The process ''
          @ [CHR 0x27] @ ''docker'' @ [CHR 0x27] @ '' failed with exit code 1'')"
    by (simp add: cross_mark_def sublist_Cons_right)
  moreover have "push latest_push_fails ''reg.example'' ''app'' ''v1'' empty_world =
     (Inl (cross_mark @ '' Failed to push reg.example/app:v1: Error: The process ''
           @ [CHR 0x27] @ ''docker'' @ [CHR 0x27] @ '' failed with exit code 1''),
      \<lparr>spawned =
         [\<lparr>command = ''docker'', argv = [''tag'', ''app:v1'', ''reg.example/app:v1''],
           options = no_options\<rparr>,
          \<lparr>command = ''docker'', argv = [''push'', ''reg.example/app:v1''], options = no_options\<rparr>,
          \<lparr>command = ''docker'', argv = [''tag'', ''app:v1'', ''reg.example/app:latest''],
           options = no_options\<rparr>,
          \<lparr>command = ''docker'', argv = [''push'', ''reg.example/app:latest''],
           options = no_options\<rparr>],
       logged = [Info (check_mark @ '' Successfully pushed: reg.example/app:v1'')],
       outputs = [], appended = [], failed = []\<rparr>)"
    by (simp add: push_def exec_def and_then_def rethrow_def Let_def info_def error_text_def
        exit_failure_def show_int_1 empty_world_def no_options_def
        latest_push_fails_def runner_def latest_push_failing_def)
  ultimately show ?thesis
    by blast
qed


section \<open>Build step and publisher in one run\<close>

text \<open>
  Whatever the build step is: after a successful engine check and login, \<open>docker\<close>
  invokes the publisher exactly when the probe found no image and the build step
  succeeded; the first invocation after those of the build step is then the
  \<open>docker tag\<close> of \<open>push\<close>.
\<close>

lemma docker_publisher_after_build:
  "let e = ensureDockerEngine pf w;
       l = registryLogin pf (registryUrl inp) (registryUsername inp) (registryPassword inp) (snd e);
       c = checkImageExists pf (registryUrl inp) (imageName inp) (version inp) (snd l);
       b = bld inp (snd c);
       tag_versioned =
         \<lparr>command = ''docker'',
          argv = [''tag'', imageName inp @ '':'' @ version inp,
                  registryUrl inp @ ''/'' @ imageName inp @ '':'' @ version inp],
          options = no_options\<rparr>
   in fst e = Inr () \<and> fst l = Inr () \<longrightarrow>
        (if fst c then spawned (snd (docker pf bld inp w)) = spawned (snd c)
         else case fst b of
                Inl m \<Rightarrow> spawned (snd (docker pf bld inp w)) = spawned (snd b)
              | Inr u \<Rightarrow>
                  prefix (spawned (snd b) @ [tag_versioned]) (spawned (snd (docker pf bld inp w))))"
proof -
  define e where "e = ensureDockerEngine pf w"
  define l where
    "l = registryLogin pf (registryUrl inp) (registryUsername inp) (registryPassword inp) (snd e)"
  define c where "c = checkImageExists pf (registryUrl inp) (imageName inp) (version inp) (snd l)"
  define b where "b = bld inp (snd c)"
  define p where "p = push pf (registryUrl inp) (imageName inp) (version inp) (snd b)"
  have skip: "spawned (snd (docker pf bld inp w)) = spawned (snd c)"
    if "fst e = Inr ()" "fst l = Inr ()" "fst c"
    using that docker_skip [of pf w inp bld] by (simp add: e_def l_def c_def info_def)
  have go: "docker pf bld inp w =
      rethrow (\<lambda>m. cross_mark @ '' Docker push failed: '' @ m)
        (and_then b
           (\<lambda>_ w4.
              and_then (push pf (registryUrl inp) (imageName inp) (version inp) w4)
                (\<lambda>_ w5.
                   (Inr (meta inp False),
                    info (check_mark @ '' Docker push process completed successfully'') w5))))"
    if "fst e = Inr ()" "fst l = Inr ()" "\<not> fst c"
    using that docker_build_and_push [of pf w inp bld] by (simp add: e_def l_def c_def b_def)
  have failed_build: "spawned (snd (docker pf bld inp w)) = spawned (snd b)"
    if "fst e = Inr ()" "fst l = Inr ()" "\<not> fst c" "fst b = Inl m" for m
    using that(4) by (simp add: go [OF that(1-3)] and_then_Inl rethrow_def)
  have pushed: "prefix
      (spawned (snd b) @
        [\<lparr>command = ''docker'',
          argv = [''tag'', imageName inp @ '':'' @ version inp,
                  registryUrl inp @ ''/'' @ imageName inp @ '':'' @ version inp],
          options = no_options\<rparr>])
      (spawned (snd (docker pf bld inp w)))"
    if h: "fst e = Inr ()" "fst l = Inr ()" "\<not> fst c" "fst b = Inr u" for u
  proof -
    have "spawned (snd (docker pf bld inp w)) = spawned (snd p)"
      using h(4) by (cases "fst p") (simp_all add: go [OF h(1-3)] and_then_Inr and_then_Inl
          rethrow_def info_def p_def)
    then show ?thesis
      using push_spawns_tag_first [of "snd b" "imageName inp" "version inp" "registryUrl inp" pf]
      by (simp add: p_def)
  qed
  show ?thesis
    using skip failed_build pushed
    unfolding Let_def e_def l_def c_def b_def
    by (auto split: sum.splits)
qed

text \<open>No component but the builder with the pull step, called with its seven arguments,
  spawns an invocation that builds with integrated push.\<close>

lemma build_argv_integrated_push:
  "integrated_push \<lparr>command = cmd, argv = build_argv url full path pp a, options = opts\<rparr>"
  by (simp add: integrated_push_def build_argv_def)

lemma ensureDockerEngine_no_push:
  "ensureDockerEngine pf w = (r, w') \<Longrightarrow>
     set (spawned w') \<subseteq> set (spawned w) \<union> {call. \<not> integrated_push call}"
  by (auto simp: ensureDockerEngine_def and_then_def rethrow_def info_def integrated_push_def
      split: prod.splits sum.splits dest!: exec_spawned_set)

lemma registryLogin_no_push:
  "registryLogin pf url user pw w = (r, w') \<Longrightarrow>
     set (spawned w') \<subseteq> set (spawned w) \<union> {call. \<not> integrated_push call}"
  by (auto simp: registryLogin_def and_then_def rethrow_def info_def integrated_push_def
      split: prod.splits sum.splits dest!: exec_spawned_set)

lemma checkImageExists_no_push:
  "checkImageExists pf url img ver w = (r, w') \<Longrightarrow>
     set (spawned w') \<subseteq> set (spawned w) \<union> {call. \<not> integrated_push call}"
  by (auto simp: checkImageExists_def checkImageExists_try_def and_then_def info_def
      integrated_push_def Let_def split: prod.splits sum.splits dest!: exec_spawned_set)

lemma push_no_push:
  "push pf url img ver w = (r, w') \<Longrightarrow>
     set (spawned w') \<subseteq> set (spawned w) \<union> {call. \<not> integrated_push call}"
  by (auto simp: push_def and_then_def rethrow_def info_def integrated_push_def Let_def
      split: prod.splits sum.splits dest!: exec_spawned_set)

lemma classic_builder_no_push:
  "classic_builder pf i w = (r, w') \<Longrightarrow>
     set (spawned w') \<subseteq> set (spawned w) \<union> {call. \<not> integrated_push call}"
  by (auto simp: classic_builder_def build_def and_then_def rethrow_def info_def
      integrated_push_def Let_def split: prod.splits sum.splits if_splits dest!: exec_spawned_set)

lemma pull_latest_no_push:
  "set (spawned (pull_latest pf url img w)) \<subseteq> set (spawned w) \<union> {call. \<not> integrated_push call}"
  by (auto simp: pull_latest_def warning_def integrated_push_def
      split: prod.splits sum.splits dest!: exec_spawned_set)

lemma buildx_builder_no_push:
  "buildx_builder pf i w = (r, w') \<Longrightarrow>
     set (spawned w') \<subseteq> set (spawned w) \<union> {call. \<not> integrated_push call}"
  using pull_latest_no_push [of pf "args i" "imageName i" w]
  by (auto simp: buildx_builder_def build_buildx_boolean_args_def Let_def split: if_splits)

lemma buildx_builder_fails: "\<exists>m. fst (buildx_builder pf i w) = Inl m"
  by (simp add: buildx_builder_def build_buildx_boolean_args_def Let_def)

lemma docker_no_push:
  assumes bld: "\<And>w0 rb wb. bld inp w0 = (rb, wb) \<Longrightarrow>
      set (spawned wb) \<subseteq> set (spawned w0) \<union> {call. \<not> integrated_push call}"
    and run: "docker pf bld inp w = (r, w')"
  shows "set (spawned w') \<subseteq> set (spawned w) \<union> {call. \<not> integrated_push call}"
proof -
  note steps = ensureDockerEngine_no_push registryLogin_no_push checkImageExists_no_push
    push_no_push bld
  show ?thesis
    using run
    by (auto simp: docker_def and_then_def rethrow_def info_def
        split: prod.splits sum.splits if_splits dest!: steps) blast+
qed

text \<open>
  Claim C8.  In a run of \<open>docker\<close> with either builder of the sources, as \<open>docker\<close> calls
  it, no invocation builds with integrated push, so the publisher never follows one.
  With the classic builder, the build is a local \<open>docker build\<close> and the publisher is
  invoked exactly when it succeeded.  The builder whose build invocation carries
  \<open>--push\<close> receives a boolean for its \<open>args\<close>: it fails before that invocation, and the
  publisher is not invoked.
\<close>

theorem publisher_never_follows_integrated_push:
  "(bld = classic_builder pf \<or> bld = buildx_builder pf \<longrightarrow>
      (\<forall>call \<in> set (spawned (snd (docker pf bld inp w))) - set (spawned w).
         \<not> integrated_push call))
   \<and> (let e = ensureDockerEngine pf w;
           l = registryLogin pf (registryUrl inp) (registryUsername inp) (registryPassword inp) (snd e);
           c = checkImageExists pf (registryUrl inp) (imageName inp) (version inp) (snd l);
           b = bld inp (snd c);
           tag_versioned =
             \<lparr>command = ''docker'',
              argv = [''tag'', imageName inp @ '':'' @ version inp,
                      registryUrl inp @ ''/'' @ imageName inp @ '':'' @ version inp],
              options = no_options\<rparr>
       in fst e = Inr () \<and> fst l = Inr () \<longrightarrow>
            (if fst c then spawned (snd (docker pf bld inp w)) = spawned (snd c)
             else case fst b of
                    Inl m \<Rightarrow> spawned (snd (docker pf bld inp w)) = spawned (snd b)
                  | Inr u \<Rightarrow>
                      prefix (spawned (snd b) @ [tag_versioned])
                        (spawned (snd (docker pf bld inp w)))))
   \<and> (\<exists>m. fst (buildx_builder pf inp w0) = Inl m)
   \<and> integrated_push
        \<lparr>command = ''docker'', argv = build_argv url full path pp a,
         options = no_options\<lparr>env := Some (process_env pf)\<rparr>\<rparr>"
proof -
  have none: "\<not> integrated_push call"
    if b: "bld = classic_builder pf \<or> bld = buildx_builder pf"
      and c: "call \<in> set (spawned (snd (docker pf bld inp w))) - set (spawned w)" for call
  proof -
    have step: "set (spawned wb) \<subseteq> set (spawned w1) \<union> {call. \<not> integrated_push call}"
      if "bld inp w1 = (rb, wb)" for w1 rb wb
      using b that classic_builder_no_push [of pf inp w1 rb wb]
        buildx_builder_no_push [of pf inp w1 rb wb]
      by blast
    have "set (spawned (snd (docker pf bld inp w)))
        \<subseteq> set (spawned w) \<union> {call. \<not> integrated_push call}"
      using docker_no_push [of bld inp pf w "fst (docker pf bld inp w)" "snd (docker pf bld inp w)"]
        step
      by simp
    with c show ?thesis
      by blast
  qed
  show ?thesis
    using none docker_publisher_after_build [of pf w inp bld] buildx_builder_fails [of pf inp w0]
      build_argv_integrated_push
    by blast
qed

text \<open>
  The request of the scenarios with the image absent and every subprocess succeeding.
  With the classic builder the run builds locally and publishes.  With the builder that
  pulls and pushes, the run stops in the build step after the pull.
\<close>

theorem publisher_never_follows_integrated_push_witness:
  "filter integrated_push
     (spawned (snd (docker registry_lacks_image (classic_builder registry_lacks_image)
                      demo_request empty_world))) = []
   \<and> map argv (spawned (snd (docker registry_lacks_image (classic_builder registry_lacks_image)
                                demo_request empty_world))) =
       [ [''--version''],
        [''login'', ''reg.example'', ''-u'', ''ci'', ''--password-stdin''],
        [''manifest'', ''inspect'', ''reg.example/app:v1''],
        [''build'', ''-t'', ''app:v1'', ''-f'', ''app/Dockerfile'', ''app''],
        [''tag'', ''app:v1'', ''reg.example/app:v1''],
        [''push'', ''reg.example/app:v1''],
        [''tag'', ''app:v1'', ''reg.example/app:latest''],
        [''push'', ''reg.example/app:latest''] ]
   \<and> fst (docker registry_lacks_image (buildx_builder registry_lacks_image)
            (demo_request\<lparr>args := ''--no-cache''\<rparr>) empty_world) =
       Inl (cross_mark @ '' Docker push failed: '' @ cross_mark
            @ '' Failed to build: TypeError: args.trim is not a function'')
   \<and> map argv (spawned (snd (docker registry_lacks_image (buildx_builder registry_lacks_image)
                                (demo_request\<lparr>args := ''--no-cache''\<rparr>) empty_world))) =
       [ [''--version''],
        [''login'', ''reg.example'', ''-u'', ''ci'', ''--password-stdin''],
        [''manifest'', ''inspect'', ''reg.example/app:v1''],
        [''pull'', ''--no-cache/app:latest''] ]"
proof -
  have "\<forall>call \<in> set (spawned (snd (docker registry_lacks_image
          (classic_builder registry_lacks_image) demo_request empty_world))) - set (spawned empty_world).
        \<not> integrated_push call"
    using publisher_never_follows_integrated_push [where bld = "classic_builder registry_lacks_image"
        and pf = registry_lacks_image and inp = demo_request and w = empty_world]
    by simp
  then have none: "filter integrated_push
     (spawned (snd (docker registry_lacks_image (classic_builder registry_lacks_image)
                      demo_request empty_world))) = []"
    by (simp add: filter_empty_conv empty_world_def)
  have classic: "map argv (spawned (snd (docker registry_lacks_image
        (classic_builder registry_lacks_image) demo_request empty_world))) =
       [ [''--version''],
        [''login'', ''reg.example'', ''-u'', ''ci'', ''--password-stdin''],
        [''manifest'', ''inspect'', ''reg.example/app:v1''],
        [''build'', ''-t'', ''app:v1'', ''-f'', ''app/Dockerfile'', ''app''],
        [''tag'', ''app:v1'', ''reg.example/app:v1''],
        [''push'', ''reg.example/app:v1''],
        [''tag'', ''app:v1'', ''reg.example/app:latest''],
        [''push'', ''reg.example/app:latest''] ]"
    by (simp add: docker_def ensureDockerEngine_def registryLogin_def checkImageExists_def
        checkImageExists_try_def classic_builder_def build_def push_def exec_def and_then_def
        rethrow_def Let_def no_options_def info_def empty_world_def
        registry_lacks_image_def runner_def image_absent_def demo_files_def demo_request_def)
  have buildx: "docker registry_lacks_image (buildx_builder registry_lacks_image)
        (demo_request\<lparr>args := ''--no-cache''\<rparr>) empty_world =
      (Inl (cross_mark @ '' Docker push failed: '' @ cross_mark
            @ '' Failed to build: TypeError: args.trim is not a function''),
       snd (docker registry_lacks_image (buildx_builder registry_lacks_image)
              (demo_request\<lparr>args := ''--no-cache''\<rparr>) empty_world))"
    "map argv (spawned (snd (docker registry_lacks_image (buildx_builder registry_lacks_image)
                                (demo_request\<lparr>args := ''--no-cache''\<rparr>) empty_world))) =
       [ [''--version''],
        [''login'', ''reg.example'', ''-u'', ''ci'', ''--password-stdin''],
        [''manifest'', ''inspect'', ''reg.example/app:v1''],
        [''pull'', ''--no-cache/app:latest''] ]"
    by (simp_all add: docker_def ensureDockerEngine_def registryLogin_def checkImageExists_def
        checkImageExists_try_def buildx_builder_def build_buildx_boolean_args_def pull_latest_def
        exec_def and_then_def rethrow_def Let_def no_options_def info_def empty_world_def
        registry_lacks_image_def runner_def image_absent_def demo_files_def demo_request_def)
  from buildx(1) have failed_build: "fst (docker registry_lacks_image
        (buildx_builder registry_lacks_image) (demo_request\<lparr>args := ''--no-cache''\<rparr>) empty_world) =
      Inl (cross_mark @ '' Docker push failed: '' @ cross_mark
           @ '' Failed to build: TypeError: args.trim is not a function'')"
    by (metis fst_conv)
  show ?thesis
    using none classic failed_build buildx(2) by blast
qed

section \<open>Output emission\<close>

lemma run_failure:
  "validate (read_input pf) = None \<Longrightarrow> docker pf bld (read_input pf) w = (Inl e, w1) \<Longrightarrow>
     run pf bld w = setFailed (cross_mark @ '' Action failed: '' @ e) w1"
  by (simp add: run_def run_try_def and_then_def)

lemma run_success:
  "validate (read_input pf) = None \<Longrightarrow> docker pf bld (read_input pf) w = (Inr out, w1) \<Longrightarrow>
     run pf bld w = write_outputs pf out w1"
  by (simp add: run_def run_try_def and_then_def)

lemma write_outputs_outputs:
  "outputs (write_outputs pf out w) =
     outputs w @ [(''image'', image_out out), (''tag'', tag out), (''href'', href out),
                  (''skipped'', bool_toString (skipped out))]"
  by (simp add: write_outputs_def setOutput_def appendFileSync_def Let_def)

lemma write_outputs_appended:
  "appended (write_outputs pf out w) =
     appended w @
     (if env_get pf ''GITHUB_OUTPUT'' \<noteq> []
      then [(env_get pf ''GITHUB_OUTPUT'', ''image='' @ image_out out @ [CHR 0x0A]),
            (env_get pf ''GITHUB_OUTPUT'', ''tag='' @ tag out @ [CHR 0x0A]),
            (env_get pf ''GITHUB_OUTPUT'', ''href='' @ href out @ [CHR 0x0A]),
            (env_get pf ''GITHUB_OUTPUT'', ''skipped='' @ bool_toString (skipped out) @ [CHR 0x0A])]
      else [])"
  by (simp add: write_outputs_def setOutput_def appendFileSync_def Let_def)

lemma write_outputs_failed: "failed (write_outputs pf out w) = failed w"
  by (simp add: write_outputs_def setOutput_def appendFileSync_def Let_def)

text \<open>
  Claim C10.  The build step being one that only spawns and logs, a run writes either
  all four outputs or none.  When the validation fails, or \<open>docker\<close> throws in any phase,
  no output is set, nothing is appended to the output file, and exactly one failure
  report is added.  When \<open>docker\<close> returns a result, the outputs \<open>image\<close>, \<open>tag\<close>, \<open>href\<close>
  and \<open>skipped\<close> are set together, in this order, from that result (and the same four
  lines are appended to the file named by \<open>GITHUB_OUTPUT\<close>, if any), and no failure is
  reported.
\<close>

theorem run_outputs_all_or_nothing:
  assumes "\<forall>i w0. same_reports w0 (snd (bld i w0))"
  shows "case validate (read_input pf) of
           Some m \<Rightarrow>
             outputs (run pf bld w) = outputs w \<and> appended (run pf bld w) = appended w
             \<and> failed (run pf bld w) = failed w @ [cross_mark @ '' Action failed: '' @ m]
         | None \<Rightarrow>
             (case fst (docker pf bld (read_input pf) w) of
                Inl e \<Rightarrow>
                  outputs (run pf bld w) = outputs w \<and> appended (run pf bld w) = appended w
                  \<and> failed (run pf bld w) = failed w @ [cross_mark @ '' Action failed: '' @ e]
              | Inr out \<Rightarrow>
                  outputs (run pf bld w) =
                    outputs w @ [(''image'', image_out out), (''tag'', tag out), (''href'', href out),
                                 (''skipped'', bool_toString (skipped out))]
                  \<and> appended (run pf bld w) =
                    appended w @
                    (if env_get pf ''GITHUB_OUTPUT'' \<noteq> []
                     then [(env_get pf ''GITHUB_OUTPUT'', ''image='' @ image_out out @ [CHR 0x0A]),
                           (env_get pf ''GITHUB_OUTPUT'', ''tag='' @ tag out @ [CHR 0x0A]),
                           (env_get pf ''GITHUB_OUTPUT'', ''href='' @ href out @ [CHR 0x0A]),
                           (env_get pf ''GITHUB_OUTPUT'',
                            ''skipped='' @ bool_toString (skipped out) @ [CHR 0x0A])]
                     else [])
                  \<and> failed (run pf bld w) = failed w)"
proof (cases "validate (read_input pf)")
  case (Some m)
  then show ?thesis
    by (simp add: run_invalid setFailed_def)
next
  case None
  obtain r w1 where d: "docker pf bld (read_input pf) w = (r, w1)"
    by (cases "docker pf bld (read_input pf) w")
  have same: "outputs w1 = outputs w" "appended w1 = appended w" "failed w1 = failed w"
    using docker_reports [OF assms d] by (simp_all add: same_reports_def)
  show ?thesis
  proof (cases r)
    case (Inl e)
    then show ?thesis
      using None d same run_failure [of pf bld w e w1] by (simp add: setFailed_def)
  next
    case (Inr out)
    then show ?thesis
      using None d same run_success [of pf bld w out w1]
      by (simp add: write_outputs_outputs write_outputs_appended write_outputs_failed)
  qed
qed

text \<open>
  The request of the scenarios with the image absent and everything succeeding: four
  outputs, no failure.  The request without a version: no output, one failure.
\<close>

theorem run_outputs_all_or_nothing_witness:
  "(\<forall>i w0. same_reports w0 (snd (classic_builder registry_lacks_image i w0)))
   \<and> outputs (run registry_lacks_image (classic_builder registry_lacks_image) empty_world)
       = [(''image'', ''app''), (''tag'', ''v1''), (''href'', ''reg.example/app:v1''),
          (''skipped'', ''false'')]
   \<and> failed (run registry_lacks_image (classic_builder registry_lacks_image) empty_world) = []
   \<and> outputs (run version_missing (classic_builder version_missing) empty_world) = []
   \<and> failed (run version_missing (classic_builder version_missing) empty_world)
       = [cross_mark @ '' Action failed: version is required'']"
proof -
  have quiet: "\<forall>i w0. same_reports w0 (snd (classic_builder pf i w0))" for pf
    by (simp add: classic_builder_reports)
  have inp: "read_input registry_lacks_image = demo_request"
    by (simp add: read_input_def registry_lacks_image_def runner_def demo_inputs_def js_or_def
        env_get_def demo_request_def toLowerCase_def lower_char_def)
  have valid: "validate demo_request = None"
    by (simp add: validate_def demo_request_def)
  have res: "fst (docker registry_lacks_image (classic_builder registry_lacks_image) demo_request
                empty_world) = Inr (meta demo_request False)"
    by (simp add: docker_def ensureDockerEngine_def registryLogin_def checkImageExists_def
        checkImageExists_try_def classic_builder_def build_def push_def exec_def and_then_def
        rethrow_def Let_def no_options_def info_def
        registry_lacks_image_def runner_def image_absent_def demo_files_def demo_request_def)
  have invalid: "validate (read_input version_missing) = Some ''version is required''"
    by (simp add: validate_def read_input_def version_missing_def runner_def js_or_def env_get_def)
  have built:
    "outputs (run registry_lacks_image (classic_builder registry_lacks_image) empty_world)
       = outputs empty_world @
         [(''image'', image_out (meta demo_request False)), (''tag'', tag (meta demo_request False)),
          (''href'', href (meta demo_request False)),
          (''skipped'', bool_toString (skipped (meta demo_request False)))]
     \<and> failed (run registry_lacks_image (classic_builder registry_lacks_image) empty_world)
         = failed empty_world"
    using run_outputs_all_or_nothing [OF quiet [of registry_lacks_image], of registry_lacks_image
        empty_world]
    by (simp add: inp valid res)
  have rejected:
    "outputs (run version_missing (classic_builder version_missing) empty_world) = outputs empty_world
     \<and> failed (run version_missing (classic_builder version_missing) empty_world)
         = failed empty_world @ [cross_mark @ '' Action failed: version is required'']"
    using run_outputs_all_or_nothing [OF quiet [of version_missing], of version_missing empty_world]
    by (simp add: invalid)
  show ?thesis
    using quiet [of registry_lacks_image] built rejected
    by (simp add: meta_def demo_request_def bool_toString_def empty_world_def)
qed


section \<open>The registry password\<close>

lemma ensureDockerEngine_safe:
  "ensureDockerEngine pf w = (r, w') \<Longrightarrow>
     set (spawned w') \<subseteq> set (spawned w) \<union> Collect (password_safe pf i)"
  by (auto simp: ensureDockerEngine_def and_then_def rethrow_def info_def no_options_def
      password_safe_def command_lines_def
      split: prod.splits sum.splits dest!: exec_spawned_set)

lemma registryLogin_safe:
  "registryLogin pf (registryUrl i) (registryUsername i) (registryPassword i) w = (r, w') \<Longrightarrow>
     set (spawned w') \<subseteq> set (spawned w) \<union> Collect (password_safe pf i)"
  by (auto simp: registryLogin_def and_then_def rethrow_def info_def no_options_def
      password_safe_def command_lines_def
      split: prod.splits sum.splits dest!: exec_spawned_set)

lemma checkImageExists_safe:
  "checkImageExists pf (registryUrl i) (imageName i) (version i) w = (r, w') \<Longrightarrow>
     set (spawned w') \<subseteq> set (spawned w) \<union> Collect (password_safe pf i)"
  by (auto simp: checkImageExists_def checkImageExists_try_def and_then_def info_def no_options_def
      password_safe_def command_lines_def Let_def
      split: prod.splits sum.splits dest!: exec_spawned_set)

lemma push_safe:
  "push pf (registryUrl i) (imageName i) (version i) w = (r, w') \<Longrightarrow>
     set (spawned w') \<subseteq> set (spawned w) \<union> Collect (password_safe pf i)"
  by (auto simp: push_def and_then_def rethrow_def info_def no_options_def
      password_safe_def command_lines_def Let_def
      split: prod.splits sum.splits dest!: exec_spawned_set)

lemma classic_builder_safe:
  "classic_builder pf i w = (r, w') \<Longrightarrow>
     set (spawned w') \<subseteq> set (spawned w) \<union> Collect (password_safe pf i)"
  by (auto simp: classic_builder_def build_def and_then_def rethrow_def info_def no_options_def
      password_safe_def command_lines_def Let_def
      split: prod.splits sum.splits if_splits dest!: exec_spawned_set)

lemma pull_latest_safe:
  "set (spawned (pull_latest pf (registryUrl i) (imageName i) w))
     \<subseteq> set (spawned w) \<union> Collect (password_safe pf i)"
  by (auto simp: pull_latest_def warning_def no_options_def password_safe_def command_lines_def
      split: prod.splits sum.splits dest!: exec_spawned_set)

lemma pull_latest_by_position_safe:
  "set (spawned (pull_latest pf (args i) (imageName i) w))
     \<subseteq> set (spawned w) \<union> Collect (password_safe pf i)"
  by (auto simp: pull_latest_def warning_def no_options_def password_safe_def command_lines_def
      split: prod.splits sum.splits dest!: exec_spawned_set)

lemma buildx_builder_safe:
  assumes "buildx_builder pf i w = (r, w')"
  shows "set (spawned w') \<subseteq> set (spawned w) \<union> Collect (password_safe pf i)"
  using assms pull_latest_by_position_safe [of pf i w]
  by (auto simp: buildx_builder_def build_buildx_boolean_args_def Let_def split: if_splits)

lemma docker_safe:
  assumes bld: "\<And>w0 rb wb. bld inp w0 = (rb, wb) \<Longrightarrow>
      set (spawned wb) \<subseteq> set (spawned w0) \<union> Collect (password_safe pf inp)"
    and run: "docker pf bld inp w = (r, w')"
  shows "set (spawned w') \<subseteq> set (spawned w) \<union> Collect (password_safe pf inp)"
proof -
  note steps = ensureDockerEngine_safe [where i = inp] registryLogin_safe [where i = inp]
    checkImageExists_safe [where i = inp] push_safe [where i = inp] bld
  show ?thesis
    using run
    by (auto simp: docker_def and_then_def rethrow_def info_def
        split: prod.splits sum.splits if_splits dest!: steps) blast+
qed

lemma registryLogin_invocation:
  "spawned (snd (registryLogin pf url user pw w)) =
     spawned w @
     [\<lparr>command = ''docker'', argv = [''login'', url, ''-u'', user, ''--password-stdin''],
       options = no_options\<lparr>input := Some pw, silent := True\<rparr>\<rparr>]"
  by (simp add: registryLogin_def and_then_def rethrow_def info_def exec_def Let_def
      split: prod.splits sum.splits proc_outcome.splits)

lemma command_lines_without_password:
  "command_lines pf (inp\<lparr>registryPassword := pw'\<rparr>) = command_lines pf inp"
  by (simp add: command_lines_def)

lemma password_safe_argv:
  "password_safe pf inp call \<Longrightarrow> registryPassword inp \<notin> set (concat (command_lines pf inp)) \<Longrightarrow>
     registryPassword inp \<notin> set (argv call)"
  unfolding password_safe_def by (metis UN_I set_concat)

text \<open>
  Claim C6, as amended.  \<open>registryLogin\<close> spawns one subprocess, with the argument list
  \<open>login registry-url -u username --password-stdin\<close> whatever the password is, and with
  the password as its standard input; the password is a token of that list only when it
  is equal to the registry URL, to the username or to one of the three fixed words.  In a
  run of \<open>docker\<close> with either builder, every subprocess has one of the argument lists of
  \<open>command_lines\<close>, which are computed without the password, and none but the login has
  a standard input; so the password is not a token of any argument list unless it is
  equal to a token that comes from the other inputs.
\<close>

theorem password_on_login_stdin_only:
  "spawned (snd (registryLogin pf url user pw w)) =
     spawned w @
     [\<lparr>command = ''docker'', argv = [''login'', url, ''-u'', user, ''--password-stdin''],
       options = no_options\<lparr>input := Some pw, silent := True\<rparr>\<rparr>]
   \<and> (pw \<notin> set [''login'', url, ''-u'', user, ''--password-stdin''] \<longrightarrow>
        pw \<notin> set (concat (map argv (drop (length (spawned w))
                                        (spawned (snd (registryLogin pf url user pw w)))))))
   \<and> command_lines pf (inp\<lparr>registryPassword := pw'\<rparr>) = command_lines pf inp
   \<and> (bld = classic_builder pf \<or> bld = buildx_builder pf \<longrightarrow>
        (\<forall>call \<in> set (spawned (snd (docker pf bld inp w))) - set (spawned w).
           password_safe pf inp call
           \<and> (registryPassword inp \<notin> set (concat (command_lines pf inp)) \<longrightarrow>
                registryPassword inp \<notin> set (argv call))))"
proof -
  have run: "password_safe pf inp call
      \<and> (registryPassword inp \<notin> set (concat (command_lines pf inp)) \<longrightarrow>
           registryPassword inp \<notin> set (argv call))"
    if b: "bld = classic_builder pf \<or> bld = buildx_builder pf"
      and c: "call \<in> set (spawned (snd (docker pf bld inp w))) - set (spawned w)" for call
  proof -
    have step: "set (spawned wb) \<subseteq> set (spawned w0) \<union> Collect (password_safe pf inp)"
      if "bld inp w0 = (rb, wb)" for w0 rb wb
      using b that classic_builder_safe [of pf inp w0 rb wb] buildx_builder_safe [of pf inp w0 rb wb]
      by blast
    have "set (spawned (snd (docker pf bld inp w)))
        \<subseteq> set (spawned w) \<union> Collect (password_safe pf inp)"
      using docker_safe [of bld inp pf w "fst (docker pf bld inp w)" "snd (docker pf bld inp w)"] step
      by simp
    with c have "password_safe pf inp call"
      by blast
    then show ?thesis
      using password_safe_argv by blast
  qed
  show ?thesis
    using run by (simp add: registryLogin_invocation command_lines_without_password)
qed

text \<open>
  The request of the scenarios, with password \<open>s3cret\<close>: the password is among no
  argument list of the run, and it is the standard input of the login.
\<close>

theorem password_on_login_stdin_only_witness:
  "''s3cret'' \<notin> set [''login'', ''reg.example'', ''-u'', ''ci'', ''--password-stdin'']
   \<and> ''s3cret'' \<notin> set (concat (command_lines registry_lacks_image demo_request))
   \<and> ''s3cret'' \<notin> set (concat (map argv (spawned (snd (docker registry_lacks_image
         (classic_builder registry_lacks_image) demo_request empty_world)))))
   \<and> map (\<lambda>call. input (options call))
         (spawned (snd (registryLogin registry_lacks_image ''reg.example'' ''ci'' ''s3cret''
                          empty_world))) = [Some ''s3cret'']"
proof -
  have pw: "registryPassword demo_request = ''s3cret''"
    by (simp add: demo_request_def)
  have fresh: "''s3cret'' \<notin> set (concat (command_lines registry_lacks_image demo_request))"
    by (simp add: command_lines_def build_argv_def js_split_ws_def js_trim_def demo_request_def
        registry_lacks_image_def runner_def)
  have start: "spawned empty_world = []"
    by (simp add: empty_world_def)
  note inst = password_on_login_stdin_only [where pf = registry_lacks_image
      and bld = "classic_builder registry_lacks_image" and inp = demo_request and w = empty_world
      and url = "''reg.example''" and user = "''ci''" and pw = "''s3cret''"]
  have "\<forall>call \<in> set (spawned (snd (docker registry_lacks_image
         (classic_builder registry_lacks_image) demo_request empty_world))).
       ''s3cret'' \<notin> set (argv call)"
    using inst fresh by (simp add: pw start)
  then have run: "''s3cret'' \<notin> set (concat (map argv (spawned (snd (docker registry_lacks_image
         (classic_builder registry_lacks_image) demo_request empty_world)))))"
    by auto
  have "spawned (snd (registryLogin registry_lacks_image ''reg.example'' ''ci'' ''s3cret''
                        empty_world)) =
      [\<lparr>command = ''docker'', argv = [''login'', ''reg.example'', ''-u'', ''ci'', ''--password-stdin''],
        options = no_options\<lparr>input := Some ''s3cret'', silent := True\<rparr>\<rparr>]"
    using inst by (simp add: start)
  then show ?thesis
    using fresh run by simp
qed

text \<open>
  Claim C6 as stated, for every password value, fails when the password is equal to
  another token of the login command line: with username \<open>admin\<close> and password \<open>admin\<close>,
  the argument list of the login holds the token \<open>admin\<close>.
\<close>

theorem password_token_in_login_argv_counterexample:
  "spawned (snd (registryLogin registry_has_image ''reg.example'' ''admin'' ''admin'' empty_world)) =
     [\<lparr>command = ''docker'',
       argv = [''login'', ''reg.example'', ''-u'', ''admin'', ''--password-stdin''],
       options = \<lparr>input = Some ''admin'', ignoreReturnCode = False, silent = True, env = None\<rparr>\<rparr>]
   \<and> ''admin'' \<in> set (concat (map argv (spawned (snd (registryLogin registry_has_image
         ''reg.example'' ''admin'' ''admin'' empty_world)))))"
  by (simp add: registryLogin_def and_then_def rethrow_def info_def exec_def Let_def no_options_def
      empty_world_def registry_has_image_def runner_def all_succeed_def)

end
